theory Spec2Isabelle
  imports Complex_Main "HOL-Library.AList"
begin

section \<open>Performance metrics and the adaptive search client\<close>

text \<open>
  \<^verbatim>\<open>PerformanceMetrics\<close> keeps one \<^verbatim>\<open>OperationMetrics\<close> object per operation name in a
  \<^verbatim>\<open>Map\<close>. Durations are differences of \<^verbatim>\<open>Date.now()\<close> readings, hence integers
  (milliseconds). The error rate \<^verbatim>\<open>errors / count\<close> is a quotient of two counters; it is kept
  as an exact rational. For counters below \<open>2^50\<close> the comparisons of the rounded quotient with
  the literals \<^verbatim>\<open>0.2\<close> and \<^verbatim>\<open>0.05\<close> agree with the exact ones, and
  \<^verbatim>\<open>Math.ceil(length * 0.95)\<close> agrees with the exact ceiling of \<open>length * 19 / 20\<close>.
\<close>

record OperationMetrics =
  name :: string
  count :: nat
  totalDuration :: int
  errors :: nat
  lastError :: "string option"
  durations :: "int list"

record MetricsSummary =
  sName :: string
  sCount :: nat
  sErrors :: nat
  errorRate :: rat
  avgDuration :: rat
  p50Duration :: int
  p95Duration :: int
  p99Duration :: int

type_synonym PerformanceMetrics = "string \<Rightarrow> OperationMetrics option"

definition maxDurations :: nat where
  "maxDurations = 1000"

definition getOrCreateMetric :: "PerformanceMetrics \<Rightarrow> string \<Rightarrow> OperationMetrics" where
  "getOrCreateMetric ms operation =
     (case ms operation of
        None \<Rightarrow> \<lparr>name = operation, count = 0, totalDuration = 0, errors = 0,
                 lastError = None, durations = []\<rparr>
      | Some m \<Rightarrow> m)"

text \<open>\<^verbatim>\<open>durations.slice(-maxDurations)\<close>: the last \<open>maxDurations\<close> elements.\<close>

definition slice_last :: "nat \<Rightarrow> 'a list \<Rightarrow> 'a list" where
  "slice_last n xs = drop (length xs - n) xs"

definition recordSuccess :: "PerformanceMetrics \<Rightarrow> string \<Rightarrow> int \<Rightarrow> PerformanceMetrics" where
  "recordSuccess ms operation duration =
     (let metric = getOrCreateMetric ms operation;
          ds = durations metric @ [duration];
          ds' = (if length ds > maxDurations then slice_last maxDurations ds else ds)
      in ms(operation \<mapsto> metric\<lparr>count := count metric + 1,
                                    totalDuration := totalDuration metric + duration,
                                    durations := ds'\<rparr>))"

text \<open>The duration argument of \<^verbatim>\<open>recordError\<close> is optional; the error branch does not trim.\<close>

definition recordError :: "PerformanceMetrics \<Rightarrow> string \<Rightarrow> string \<Rightarrow> int option \<Rightarrow> PerformanceMetrics" where
  "recordError ms operation message duration =
     (let metric = getOrCreateMetric ms operation;
          metric' = metric\<lparr>count := count metric + 1, errors := errors metric + 1,
                           lastError := Some message\<rparr>
      in ms(operation \<mapsto>
           (case duration of
              None \<Rightarrow> metric'
            | Some d \<Rightarrow> metric'\<lparr>totalDuration := totalDuration metric' + d,
                                durations := durations metric' @ [d]\<rparr>)))"

text \<open>
  \<^verbatim>\<open>percentile(sortedArray, p)\<close>: \<open>0\<close> on the empty array, else the element at index
  \<^verbatim>\<open>Math.max(0, Math.ceil(length * p) - 1)\<close>. For \<open>p\<close> above one the index leaves the array
  and JavaScript yields \<^verbatim>\<open>undefined\<close>; the three call sites use 0.5, 0.95 and 0.99, and the
  model returns \<open>None\<close> for an index out of range.
\<close>

definition percentile_index :: "nat \<Rightarrow> rat \<Rightarrow> nat" where
  "percentile_index n p = nat (max 0 (\<lceil>of_nat n * p\<rceil> - 1))"

definition percentile :: "int list \<Rightarrow> rat \<Rightarrow> int option" where
  "percentile sortedArray p =
     (if sortedArray = [] then Some 0
      else let i = percentile_index (length sortedArray) p
           in if i < length sortedArray then Some (sortedArray ! i) else None)"

definition percentile_at :: "int list \<Rightarrow> rat \<Rightarrow> int" where
  "percentile_at sortedArray p = (case percentile sortedArray p of Some d \<Rightarrow> d | None \<Rightarrow> 0)"

definition getMetrics :: "PerformanceMetrics \<Rightarrow> string \<Rightarrow> MetricsSummary option" where
  "getMetrics ms operation =
     (case ms operation of
        None \<Rightarrow> None
      | Some metric \<Rightarrow>
          if count metric = 0 then None
          else let sortedDurations = sort (durations metric)
               in Some \<lparr>sName = operation,
                         sCount = count metric,
                         sErrors = errors metric,
                         errorRate = of_nat (errors metric) / of_nat (count metric),
                         avgDuration = of_int (totalDuration metric) / of_nat (count metric),
                         p50Duration = percentile_at sortedDurations (1 / 2),
                         p95Duration = percentile_at sortedDurations (95 / 100),
                         p99Duration = percentile_at sortedDurations (99 / 100)\<rparr>)"

text \<open>
  The state of an \<^verbatim>\<open>AdaptiveSearchClient\<close>. The field \<open>limit\<close> stands for the
  \<^verbatim>\<open>pLimit(n)\<close> gate and holds its \<open>n\<close>. \<open>lastAdjustment\<close> starts at the construction time.
\<close>

record AdaptiveSearchClient =
  concurrency :: int
  limit :: int
  metrics :: PerformanceMetrics
  lastAdjustment :: int

definition adjustmentInterval :: int where
  "adjustmentInterval = 10000"

definition minConcurrency :: int where
  "minConcurrency = 1"

definition maxConcurrency :: int where
  "maxConcurrency = 8"

definition newAdaptiveSearchClient :: "int \<Rightarrow> AdaptiveSearchClient" where
  "newAdaptiveSearchClient now =
     \<lparr>concurrency = 2, limit = 2, metrics = Map.empty, lastAdjustment = now\<rparr>"

text \<open>The three-way branch of \<^verbatim>\<open>adjustConcurrencyIfNeeded\<close> on the summary.\<close>

definition adjustedConcurrency :: "MetricsSummary \<Rightarrow> int \<Rightarrow> int" where
  "adjustedConcurrency m c =
     (if errorRate m > 2 / 10 then max minConcurrency (c - 1)
      else if errorRate m < 5 / 100 \<and> p95Duration m < 5000 then min maxConcurrency (c + 1)
      else if p95Duration m > 10000 then max minConcurrency (c - 1)
      else c)"

definition adjustConcurrencyIfNeeded :: "int \<Rightarrow> AdaptiveSearchClient \<Rightarrow> AdaptiveSearchClient" where
  "adjustConcurrencyIfNeeded now s =
     (if now - lastAdjustment s < adjustmentInterval then s
      else case getMetrics (metrics s) ''search'' of
             None \<Rightarrow> s
           | Some m \<Rightarrow>
               if sCount m < 5 then s
               else let oldConcurrency = concurrency s;
                        newConcurrency = adjustedConcurrency m oldConcurrency
                    in if newConcurrency \<noteq> oldConcurrency
                       then s\<lparr>concurrency := newConcurrency, limit := newConcurrency,
                              lastAdjustment := now\<rparr>
                       else s)"

text \<open>
  One completed call of \<^verbatim>\<open>search\<close>, after the base client has settled: the outcome, the
  start time, the time read for the duration and the time read by the adjustment. Recording
  and adjusting run without an intervening suspension point, so each completion is one
  atomic step of the client, whatever the interleaving of the calls in flight.
\<close>

datatype search_outcome = Succeeded | ReturnedFailure | Threw string

record search_completion =
  outcome :: search_outcome
  startedAt :: int
  finishedAt :: int
  adjustedAt :: int

definition search_completed :: "search_completion \<Rightarrow> AdaptiveSearchClient \<Rightarrow> AdaptiveSearchClient" where
  "search_completed ev s =
     (let duration = finishedAt ev - startedAt ev;
          ms = (case outcome ev of
                  Succeeded \<Rightarrow> recordSuccess (metrics s) ''search'' duration
                | ReturnedFailure \<Rightarrow>
                    recordError (metrics s) ''search'' ''Search returned success=false'' (Some duration)
                | Threw msg \<Rightarrow> recordError (metrics s) ''search'' msg (Some duration))
      in adjustConcurrencyIfNeeded (adjustedAt ev) (s\<lparr>metrics := ms\<rparr>))"

text \<open>A client after any sequence of completed searches, from its construction.\<close>

definition run_searches :: "int \<Rightarrow> search_completion list \<Rightarrow> AdaptiveSearchClient" where
  "run_searches constructedAt evs = foldl (\<lambda>s ev. search_completed ev s) (newAdaptiveSearchClient constructedAt) evs"

text \<open>
  The adjustment rule in the words of the specification: evaluated only when the interval
  has elapsed and a summary with at least five samples exists; then at most one step down,
  up or down again, in that order of precedence, clamped to the bounds.
\<close>

definition spec_rule :: "int \<Rightarrow> int \<Rightarrow> rat \<Rightarrow> int \<Rightarrow> int \<Rightarrow> int" where
  "spec_rule lo hi rate p95 ceiling_now =
     (if rate > 20 / 100 then max lo (ceiling_now - 1)
      else if rate < 5 / 100 \<and> p95 < 5000 then min hi (ceiling_now + 1)
      else if p95 > 10000 then max lo (ceiling_now - 1)
      else ceiling_now)"

definition spec_ceiling_after :: "int \<Rightarrow> AdaptiveSearchClient \<Rightarrow> int" where
  "spec_ceiling_after now s =
     (case getMetrics (metrics s) ''search'' of
        None \<Rightarrow> concurrency s
      | Some m \<Rightarrow>
          if now - lastAdjustment s \<ge> 10000 \<and> sCount m \<ge> 5
          then spec_rule 1 8 (errorRate m) (p95Duration m) (concurrency s)
          else concurrency s)"

text \<open>Example: a search that succeeds in 100 ms, and a client after four of them.\<close>

definition quick_search :: "int \<Rightarrow> search_completion" where
  "quick_search t = \<lparr>outcome = Succeeded, startedAt = t, finishedAt = t + 100, adjustedAt = t + 100\<rparr>"

definition warmed_up :: AdaptiveSearchClient where
  "warmed_up = run_searches 0 [quick_search 0, quick_search 1, quick_search 2, quick_search 3]"

section \<open>JavaScript values and errors\<close>

text \<open>
  Values of the generic result type \<^verbatim>\<open>T\<close> and raw tool arguments are JavaScript values.
  \<open>truthy\<close> is the coercion used by \<^verbatim>\<open>if (x)\<close> and \<^verbatim>\<open>x || y\<close>: \<^verbatim>\<open>undefined\<close>,
  \<^verbatim>\<open>null\<close>, \<^verbatim>\<open>false\<close>, zero, \<^verbatim>\<open>NaN\<close> and the empty string are falsy; every object and
  array is truthy. Finite numbers are exact rationals; \<open>JInfinity True\<close> and \<open>JInfinity False\<close>
  are the two infinities.
\<close>

datatype jsval =
    JUndefined
  | JNull
  | JBool bool
  | JNumber rat
  | JNaN
  | JInfinity bool
  | JString string
  | JObject "(string \<times> jsval) list"
  | JArray "jsval list"

fun truthy :: "jsval \<Rightarrow> bool" where
  "truthy JUndefined = False"
| "truthy JNull = False"
| "truthy (JBool b) = b"
| "truthy (JNumber n) = (n \<noteq> 0)"
| "truthy JNaN = False"
| "truthy (JInfinity positive) = True"
| "truthy (JString s) = (s \<noteq> [])"
| "truthy (JObject kvs) = True"
| "truthy (JArray vs) = True"

text \<open>
  The error classes of \<^verbatim>\<open>src/shared/errors.ts\<close>: an error has a class name, a message and an
  optional cause. \<^verbatim>\<open>SearchError\<close> and \<^verbatim>\<open>AIModelError\<close> extend \<^verbatim>\<open>ResearchError\<close> and
  overwrite the name.
\<close>

datatype js_error = JsError (errName: string) (errMessage: string) (errCause: "js_error option")

definition ResearchError :: "string \<Rightarrow> js_error option \<Rightarrow> js_error" where
  "ResearchError message cause = JsError ''ResearchError'' message cause"

definition SearchError :: "string \<Rightarrow> js_error option \<Rightarrow> js_error" where
  "SearchError message cause = JsError ''SearchError'' message cause"

definition AIModelError :: "string \<Rightarrow> js_error option \<Rightarrow> js_error" where
  "AIModelError message cause = JsError ''AIModelError'' message cause"

text \<open>\<^verbatim>\<open>Result<T, E>\<close> with its constructors \<^verbatim>\<open>Ok\<close> and \<^verbatim>\<open>Err\<close>.\<close>

datatype ('a, 'e) Result = Ok 'a | Err 'e

section \<open>The content cache (LRU) and the model provider's cache\<close>

text \<open>
  A JavaScript \<^verbatim>\<open>Map\<close> iterates in insertion order, which the LRU eviction relies on; a map
  is an association list in that order. \<^verbatim>\<open>Map.delete\<close> is \<open>AList.delete\<close>; \<^verbatim>\<open>Map.set\<close> of a
  fresh key appends, of a present key replaces in place (\<open>AList.update\<close>).
  The entry of \<^verbatim>\<open>ContentCache.ts\<close> has the fields \<^verbatim>\<open>value\<close>, \<^verbatim>\<open>timestamp\<close>,
  \<^verbatim>\<open>accessCount\<close>; they are \<open>val\<close>, \<open>lruTimestamp\<close>, \<open>accessCount\<close> here.
\<close>

record 'a ContentCacheEntry =
  val :: 'a
  lruTimestamp :: int
  accessCount :: nat

record 'a LRUContentCache =
  lruCache :: "(string \<times> 'a ContentCacheEntry) list"
  maxSize :: nat
  lruTtl :: int

definition newLRUContentCache :: "nat \<Rightarrow> int \<Rightarrow> 'a LRUContentCache" where
  "newLRUContentCache size_limit ttlMs = \<lparr>lruCache = [], maxSize = size_limit, lruTtl = ttlMs\<rparr>"

definition lru_get :: "int \<Rightarrow> string \<Rightarrow> 'a LRUContentCache \<Rightarrow> 'a option \<times> 'a LRUContentCache" where
  "lru_get now key c =
     (case map_of (lruCache c) key of
        None \<Rightarrow> (None, c)
      | Some entry \<Rightarrow>
          if now - lruTimestamp entry > lruTtl c
          then (None, c\<lparr>lruCache := AList.delete key (lruCache c)\<rparr>)
          else let entry' = entry\<lparr>accessCount := accessCount entry + 1\<rparr>
               in (Some (val entry'),
                   c\<lparr>lruCache := AList.delete key (lruCache c) @ [(key, entry')]\<rparr>))"

definition lru_set :: "int \<Rightarrow> string \<Rightarrow> 'a \<Rightarrow> 'a LRUContentCache \<Rightarrow> 'a LRUContentCache" where
  "lru_set now key v c =
     (let c1 = (if map_of (lruCache c) key \<noteq> None then AList.delete key (lruCache c)
                else lruCache c);
          c2 = (if length c1 \<ge> maxSize c
                then (case c1 of [] \<Rightarrow> c1 | (firstKey, e) # rest \<Rightarrow> AList.delete firstKey c1)
                else c1)
      in c\<lparr>lruCache := c2 @ [(key, \<lparr>val = v, lruTimestamp = now, accessCount = 1\<rparr>)]\<rparr>)"

text \<open>
  \<^verbatim>\<open>BatchedModelProvider\<close>. Its cache entry has the fields \<^verbatim>\<open>result\<close>, \<^verbatim>\<open>timestamp\<close>,
  \<^verbatim>\<open>ttl\<close>. \<open>modelCalls\<close> is not a field of the class: it logs, in order, the requests handed to
  the underlying \<^verbatim>\<open>generateObject\<close> of the model library, so that "no model call" can be
  stated.
\<close>

record CacheEntry =
  result :: jsval
  timestamp :: int
  ttl :: int

record UsageStats =
  totalCalls :: nat
  totalTokens :: nat
  cacheHits :: nat
  averageLatency :: rat

record GenerationParams =
  model :: string
  system :: "string option"
  prompt :: string
  schema :: string

record BatchedModelProvider =
  cache :: "(string \<times> CacheEntry) list"
  stats :: UsageStats
  modelCalls :: "GenerationParams list"

definition newBatchedModelProvider :: BatchedModelProvider where
  "newBatchedModelProvider =
     \<lparr>cache = [],
      stats = \<lparr>totalCalls = 0, totalTokens = 0, cacheHits = 0, averageLatency = 0\<rparr>,
      modelCalls = []\<rparr>"

text \<open>
  \<^verbatim>\<open>getCacheKey\<close> joins system prompt, prompt and the JSON text of the schema (the field
  \<open>schema\<close>) with bars, encodes the bytes in base64 and keeps 64 characters. Base64 maps every
  three bytes to four characters one-to-one, so the key is a renaming of the first 48 bytes of
  the joined text; the model keeps those bytes as the key.
\<close>

definition getCacheKey :: "GenerationParams \<Rightarrow> string" where
  "getCacheKey params =
     take 48 ((case system params of None \<Rightarrow> [] | Some s \<Rightarrow> s) @ ''|'' @ prompt params
              @ ''|'' @ schema params)"

definition expired :: "int \<Rightarrow> CacheEntry \<Rightarrow> bool" where
  "expired now entry = (now > timestamp entry + ttl entry)"

definition getFromCache :: "int \<Rightarrow> string \<Rightarrow> BatchedModelProvider \<Rightarrow> jsval \<times> BatchedModelProvider" where
  "getFromCache now key p =
     (case map_of (cache p) key of
        None \<Rightarrow> (JNull, p)
      | Some entry \<Rightarrow>
          if expired now entry then (JNull, p\<lparr>cache := AList.delete key (cache p)\<rparr>)
          else (result entry, p))"

definition cleanupCache :: "int \<Rightarrow> BatchedModelProvider \<Rightarrow> BatchedModelProvider" where
  "cleanupCache now p = p\<lparr>cache := filter (\<lambda>(key, entry). \<not> expired now entry) (cache p)\<rparr>"

definition setCache :: "int \<Rightarrow> string \<Rightarrow> jsval \<Rightarrow> int \<Rightarrow> BatchedModelProvider \<Rightarrow> BatchedModelProvider" where
  "setCache now key res ttlMs p =
     (let p' = p\<lparr>cache := AList.update key \<lparr>result = res, timestamp = now, ttl = ttlMs\<rparr> (cache p)\<rparr>
      in if length (cache p') > 1000 then cleanupCache now p' else p')"

text \<open>\<^verbatim>\<open>usage?.totalTokens\<close> is added when present and truthy (non-zero).\<close>

definition updateStats :: "int \<Rightarrow> nat option \<Rightarrow> BatchedModelProvider \<Rightarrow> BatchedModelProvider" where
  "updateStats duration usage p =
     (let st = stats p;
          st' = st\<lparr>averageLatency :=
                     (averageLatency st * (of_nat (totalCalls st) - 1) + of_int duration)
                       / of_nat (totalCalls st)\<rparr>
      in p\<lparr>stats := (case usage of
                         None \<Rightarrow> st'
                       | Some tokens \<Rightarrow>
                           if tokens \<noteq> 0 then st'\<lparr>totalTokens := totalTokens st' + tokens\<rparr>
                           else st')\<rparr>)"

text \<open>
  One call of \<^verbatim>\<open>BatchedModelProvider.generateObject\<close>. The clock is read on entry, by the
  cache lookup, after the model has settled and by \<^verbatim>\<open>setCache\<close>. \<open>reply\<close> is what the
  model library answers if it is asked: an exception, or the generated object with the
  token usage it reports.
\<close>

record generation_clock =
  tStart :: int
  tLookup :: int
  tDone :: int
  tStore :: int

definition generateObject ::
  "generation_clock \<Rightarrow> GenerationParams \<Rightarrow> js_error + jsval \<times> nat option
     \<Rightarrow> BatchedModelProvider \<Rightarrow> (jsval, js_error) Result \<times> BatchedModelProvider" where
  "generateObject clk params reply p0 =
     (let p1 = p0\<lparr>stats := (stats p0)\<lparr>totalCalls := totalCalls (stats p0) + 1\<rparr>\<rparr>;
          cacheKey = getCacheKey params;
          (cached, p2) = getFromCache (tLookup clk) cacheKey p1
      in if truthy cached
         then (Ok cached, p2\<lparr>stats := (stats p2)\<lparr>cacheHits := cacheHits (stats p2) + 1\<rparr>\<rparr>)
         else let p3 = p2\<lparr>modelCalls := modelCalls p2 @ [params]\<rparr>;
                  duration = tDone clk - tStart clk
              in case reply of
                   Inr (object, usage) \<Rightarrow>
                     (Ok object,
                      setCache (tStore clk) cacheKey object (5 * 60 * 1000)
                        (updateStats duration usage p3))
                 | Inl error \<Rightarrow>
                     (Err (AIModelError ''Failed to generate object'' (Some error)),
                      updateStats duration None p3))"

text \<open>Example states used to evaluate the caches at concrete inputs.\<close>

definition example_provider :: BatchedModelProvider where
  "example_provider =
     newBatchedModelProvider\<lparr>cache := [(''k'', \<lparr>result = JString ''v'', timestamp = 4, ttl = 6\<rparr>)]\<rparr>"

definition example_content_cache :: "string LRUContentCache" where
  "example_content_cache =
     (newLRUContentCache 100 6)\<lparr>lruCache := [(''k'', \<lparr>val = ''v'', lruTimestamp = 4, accessCount = 1\<rparr>)]\<rparr>"

definition count_request :: GenerationParams where
  "count_request = \<lparr>model = ''m'', system = None, prompt = ''count'', schema = ''{}''\<rparr>"

definition first_call :: "(jsval, js_error) Result \<times> BatchedModelProvider" where
  "first_call =
     generateObject \<lparr>tStart = 0, tLookup = 0, tDone = 10, tStore = 10\<rparr> count_request
       (Inr (JNumber 0, None)) newBatchedModelProvider"

definition second_call :: "(jsval, js_error) Result \<times> BatchedModelProvider" where
  "second_call =
     generateObject \<lparr>tStart = 20, tLookup = 20, tDone = 30, tStore = 30\<rparr> count_request
       (Inr (JNumber 0, None)) (snd first_call)"

text \<open>
  Example requests: two different prompts under one system prompt of more than 48 bytes.
\<close>

definition long_system :: string where
  "long_system = ''You are an expert researcher. Follow the instructions below.''"

definition request_a :: GenerationParams where
  "request_a = \<lparr>model = ''m'', system = Some long_system, prompt = ''rate source A'',
                 schema = ''{}''\<rparr>"

definition request_b :: GenerationParams where
  "request_b = \<lparr>model = ''m'', system = Some long_system, prompt = ''rate source B'',
                 schema = ''{}''\<rparr>"

definition answer_a :: jsval where
  "answer_a = JObject [(''score'', JNumber (9 / 10))]"

definition answer_b :: jsval where
  "answer_b = JObject [(''score'', JNumber (1 / 10))]"

definition after_request_a :: BatchedModelProvider where
  "after_request_a =
     snd (generateObject \<lparr>tStart = 0, tLookup = 0, tDone = 10, tStore = 10\<rparr> request_a
            (Inr (answer_a, None)) newBatchedModelProvider)"

section \<open>The multi-level cache\<close>

text \<open>
  \<^verbatim>\<open>MultiLevelCache\<close> composes tiers that implement the \<^verbatim>\<open>CacheService\<close> interface. A tier
  is given by its live contents: for each key the value last written together with the
  \<^verbatim>\<open>ttlSeconds\<close> handed to \<^verbatim>\<open>set\<close>; \<^verbatim>\<open>get\<close> of a tier returns the value or \<^verbatim>\<open>null\<close> (\<open>None\<close>).
  What a tier drops on its own between two operations (expiry, eviction, an unreachable
  store) shows as different contents at the next operation.
\<close>

type_synonym 'v tier = "string \<Rightarrow> ('v \<times> int) option"

definition tier_get :: "string \<Rightarrow> 'v tier \<Rightarrow> 'v option" where
  "tier_get key t = map_option fst (t key)"

definition tier_set :: "string \<Rightarrow> 'v \<Rightarrow> int \<Rightarrow> 'v tier \<Rightarrow> 'v tier" where
  "tier_set key v ttlSeconds t = t(key \<mapsto> (v, ttlSeconds))"

definition tier_delete :: "string \<Rightarrow> 'v tier \<Rightarrow> 'v tier" where
  "tier_delete key t = t(key := None)"

definition tier_exists :: "string \<Rightarrow> 'v tier \<Rightarrow> bool" where
  "tier_exists key t = (t key \<noteq> None)"

record level_stats =
  hits :: nat
  misses :: nat

record 'v MultiLevelCache =
  l1 :: "'v tier"
  l2 :: "'v tier"
  l3 :: "'v tier option"
  stats1 :: level_stats
  stats2 :: level_stats
  stats3 :: level_stats

definition hit :: "level_stats \<Rightarrow> level_stats" where
  "hit st = st\<lparr>hits := hits st + 1\<rparr>"

definition miss :: "level_stats \<Rightarrow> level_stats" where
  "miss st = st\<lparr>misses := misses st + 1\<rparr>"

definition ml_get :: "string \<Rightarrow> 'v MultiLevelCache \<Rightarrow> 'v option \<times> 'v MultiLevelCache" where
  "ml_get key c =
     (case tier_get key (l1 c) of
        Some v \<Rightarrow> (Some v, c\<lparr>stats1 := hit (stats1 c)\<rparr>)
      | None \<Rightarrow>
          let c1 = c\<lparr>stats1 := miss (stats1 c)\<rparr>
          in case tier_get key (l2 c1) of
               Some v \<Rightarrow>
                 (Some v, c1\<lparr>stats2 := hit (stats2 c1), l1 := tier_set key v 300 (l1 c1)\<rparr>)
             | None \<Rightarrow>
                 let c2 = c1\<lparr>stats2 := miss (stats2 c1)\<rparr>
                 in case l3 c2 of
                      None \<Rightarrow> (None, c2)
                    | Some t3 \<Rightarrow>
                        (case tier_get key t3 of
                           Some v \<Rightarrow>
                             (Some v,
                              c2\<lparr>stats3 := hit (stats3 c2),
                                 l2 := tier_set key v 3600 (l2 c2),
                                 l1 := tier_set key v 300 (l1 c2)\<rparr>)
                         | None \<Rightarrow> (None, c2\<lparr>stats3 := miss (stats3 c2)\<rparr>)))"

text \<open>\<^verbatim>\<open>set(key, value, ttlSeconds = 3600)\<close>: the third argument is optional.\<close>

definition ml_set :: "string \<Rightarrow> 'v \<Rightarrow> int option \<Rightarrow> 'v MultiLevelCache \<Rightarrow> 'v MultiLevelCache" where
  "ml_set key v ttlArg c =
     (let ttlSeconds = (case ttlArg of None \<Rightarrow> 3600 | Some t \<Rightarrow> t)
      in c\<lparr>l1 := tier_set key v (min ttlSeconds 300) (l1 c),
           l2 := tier_set key v ttlSeconds (l2 c),
           l3 := map_option (tier_set key v (ttlSeconds * 2)) (l3 c)\<rparr>)"

definition ml_delete :: "string \<Rightarrow> 'v MultiLevelCache \<Rightarrow> 'v MultiLevelCache" where
  "ml_delete key c =
     c\<lparr>l1 := tier_delete key (l1 c), l2 := tier_delete key (l2 c),
       l3 := map_option (tier_delete key) (l3 c)\<rparr>"

definition ml_exists :: "string \<Rightarrow> 'v MultiLevelCache \<Rightarrow> bool" where
  "ml_exists key c =
     (if tier_exists key (l1 c) then True
      else if tier_exists key (l2 c) then True
      else case l3 c of None \<Rightarrow> False | Some t3 \<Rightarrow> tier_exists key t3)"

definition example_tiers :: "string MultiLevelCache" where
  "example_tiers =
     \<lparr>l1 = Map.empty, l2 = [''k'' \<mapsto> (''v'', 3600)], l3 = Some Map.empty,
      stats1 = \<lparr>hits = 0, misses = 0\<rparr>, stats2 = \<lparr>hits = 0, misses = 0\<rparr>,
      stats3 = \<lparr>hits = 0, misses = 0\<rparr>\<rparr>"

section \<open>The research tools of the MCP server\<close>

text \<open>
  Number division as JavaScript performs it on finite operands: \<^verbatim>\<open>0 / 0\<close> is \<^verbatim>\<open>NaN\<close>, any
  other division by zero an infinity.
\<close>

definition js_divide :: "rat \<Rightarrow> rat \<Rightarrow> jsval" where
  "js_divide a b =
     (if b = 0 then (if a = 0 then JNaN else JInfinity (a > 0)) else JNumber (a / b))"

record SourceMetadata =
  smUrl :: string
  smTitle :: string
  smDomain :: string
  reliabilityScore :: rat
  reliabilityReasoning :: string

record LearningWithReliability =
  content :: string
  reliability :: rat

text \<open>
  \<^verbatim>\<open>ResearchResult\<close> and \<^verbatim>\<open>ResearchContext\<close> share the fields \<^verbatim>\<open>learnings\<close>,
  \<^verbatim>\<open>learningReliabilities\<close> and \<^verbatim>\<open>visitedUrls\<close>; both extend the record of these three. The
  optional \<^verbatim>\<open>budget\<close> of a result is never set by the code modelled here and is left out.
\<close>

record findings =
  learnings :: "string list"
  learningReliabilities :: "rat list"
  visitedUrls :: "string list"

record ResearchResult = findings +
  sourceMetadata :: "SourceMetadata list"
  weightedLearnings :: "LearningWithReliability list"

text \<open>A number that passed \<^verbatim>\<open>z.number()\<close>: finite, or one of the two infinities.\<close>

datatype js_number = Finite rat | Infinite bool

record ResearchParams =
  query :: string
  depth :: rat
  breadth :: rat
  tokenBudget :: "js_number option"
  sourcePreferences :: "string option"

text \<open>The arguments of both research tools: the research parameters and a model specifier.\<close>

record tool_args = ResearchParams +
  modelSpec :: "string option"

text \<open>
  The zod schemas of the tool arguments, read on the raw argument object:
  \<^verbatim>\<open>z.string().min(n)\<close>, \<^verbatim>\<open>z.number().min(lo).max(hi)\<close> and the optional string and number.
  A missing key and \<^verbatim>\<open>undefined\<close> satisfy an optional schema. \<^verbatim>\<open>z.number()\<close> refuses
  \<^verbatim>\<open>NaN\<close> and lets the infinities pass; a lower or upper bound then refuses one of them.
\<close>

definition z_string_min :: "nat \<Rightarrow> jsval option \<Rightarrow> string option" where
  "z_string_min n arg = (case arg of Some (JString s) \<Rightarrow> if length s \<ge> n then Some s else None
                                   | _ \<Rightarrow> None)"

definition z_number_min_max :: "rat \<Rightarrow> rat \<Rightarrow> jsval option \<Rightarrow> rat option" where
  "z_number_min_max lo hi arg =
     (case arg of Some (JNumber x) \<Rightarrow> if lo \<le> x \<and> x \<le> hi then Some x else None
                | _ \<Rightarrow> None)"

definition z_string_optional :: "jsval option \<Rightarrow> string option option" where
  "z_string_optional arg =
     (case arg of None \<Rightarrow> Some None
                | Some JUndefined \<Rightarrow> Some None
                | Some (JString s) \<Rightarrow> Some (Some s)
                | _ \<Rightarrow> None)"

definition z_number_optional :: "jsval option \<Rightarrow> js_number option option" where
  "z_number_optional arg =
     (case arg of None \<Rightarrow> Some None
                | Some JUndefined \<Rightarrow> Some None
                | Some (JNumber x) \<Rightarrow> Some (Some (Finite x))
                | Some (JInfinity positive) \<Rightarrow> Some (Some (Infinite positive))
                | _ \<Rightarrow> None)"

definition issue :: "string \<Rightarrow> 'a option \<Rightarrow> string list" where
  "issue path parsed = (case parsed of None \<Rightarrow> [path] | Some x \<Rightarrow> [])"

text \<open>
  The schema shared by \<^verbatim>\<open>research-sources\<close> and \<^verbatim>\<open>deep-research\<close>, in both server files:
  the parsed arguments, or the paths of the arguments that failed.
\<close>

definition research_schema :: "(string \<Rightarrow> jsval option) \<Rightarrow> string list + tool_args" where
  "research_schema raw =
     (let q = z_string_min 1 (raw ''query'');
          d = z_number_min_max 1 5 (raw ''depth'');
          b = z_number_min_max 1 5 (raw ''breadth'');
          m = z_string_optional (raw ''model'');
          t = z_number_optional (raw ''tokenBudget'');
          sp = z_string_optional (raw ''sourcePreferences'')
      in case (q, d, b, m, t, sp) of
           (Some q', Some d', Some b', Some m', Some t', Some sp') \<Rightarrow>
             Inr \<lparr>query = q', depth = d', breadth = b', tokenBudget = t',
                  sourcePreferences = sp', modelSpec = m'\<rparr>
         | _ \<Rightarrow> Inl (issue ''query'' q @ issue ''depth'' d @ issue ''breadth'' b
                      @ issue ''model'' m @ issue ''tokenBudget'' t
                      @ issue ''sourcePreferences'' sp))"

text \<open>
  The collaborators a handler calls, none of them part of the sources: \<^verbatim>\<open>getModel\<close>,
  \<^verbatim>\<open>deepResearch\<close> (the one that searches and queries the model) and \<^verbatim>\<open>writeFinalReport\<close>.
  Each answers with a value or throws. A handler returns, with its response, the calls it
  made in order.
\<close>

datatype ext_call = CallGetModel | CallDeepResearch | CallWriteFinalReport

record tool_env =
  getModel :: "string option \<Rightarrow> js_error + string"
  deepResearch :: "tool_args \<Rightarrow> string \<Rightarrow> js_error + ResearchResult"
  writeFinalReport :: "string \<Rightarrow> ResearchResult \<Rightarrow> string \<Rightarrow> js_error + string"

record research_coverage =
  total_sources :: nat
  average_reliability :: jsval
  high_reliability_sources :: nat
  visited_urls :: "string list"

record report_stats =
  totalLearnings :: nat
  totalSources :: nat
  averageReliability :: jsval

datatype tool_response =
    SourcesData research_coverage
  | Report string report_stats
  | ToolError string

text \<open>\<^verbatim>\<open>weightedLearnings.reduce((acc, curr) => acc + curr.reliability, 0)\<close>\<close>

definition sum_reliability :: "LearningWithReliability list \<Rightarrow> rat" where
  "sum_reliability wl = foldl (\<lambda>acc curr. acc + reliability curr) 0 wl"

text \<open>The average as the first server file computes it, behind a length test.\<close>

definition average_guarded :: "LearningWithReliability list \<Rightarrow> jsval" where
  "average_guarded wl =
     (if length wl > 0 then js_divide (sum_reliability wl) (of_nat (length wl)) else JNumber 0)"

text \<open>The average as the second server file computes it: the bare quotient.\<close>

definition average_unguarded :: "LearningWithReliability list \<Rightarrow> jsval" where
  "average_unguarded wl = js_divide (sum_reliability wl) (of_nat (length wl))"

definition error_text :: "js_error \<Rightarrow> string" where
  "error_text e = ''Error performing research: '' @ errMessage e"

text \<open>
  The handler of \<^verbatim>\<open>research-sources\<close>; the two server files differ in how the average is
  taken (and in logging and the wording of the error text, which are left out).
\<close>

definition research_sources_body ::
  "(LearningWithReliability list \<Rightarrow> jsval) \<Rightarrow> tool_env \<Rightarrow> tool_args \<Rightarrow> ext_call list \<times> tool_response" where
  "research_sources_body average env args =
     (case getModel env (modelSpec args) of
        Inl e \<Rightarrow> ([CallGetModel], ToolError (error_text e))
      | Inr m \<Rightarrow>
          (case deepResearch env args m of
             Inl e \<Rightarrow> ([CallGetModel, CallDeepResearch], ToolError (error_text e))
           | Inr res \<Rightarrow>
               ([CallGetModel, CallDeepResearch],
                SourcesData
                  \<lparr>total_sources = length (visitedUrls res),
                   average_reliability = average (weightedLearnings res),
                   high_reliability_sources =
                     length (filter (\<lambda>s. reliabilityScore s \<ge> 7 / 10) (sourceMetadata res)),
                   visited_urls = visitedUrls res\<rparr>)))"

definition research_sources_handler :: "tool_env \<Rightarrow> tool_args \<Rightarrow> ext_call list \<times> tool_response" where
  "research_sources_handler = research_sources_body average_guarded"

definition research_sources_handler_second :: "tool_env \<Rightarrow> tool_args \<Rightarrow> ext_call list \<times> tool_response" where
  "research_sources_handler_second = research_sources_body average_unguarded"

text \<open>The handler of \<^verbatim>\<open>deep-research\<close> (the legacy report), likewise in two variants.\<close>

definition deep_research_body ::
  "(LearningWithReliability list \<Rightarrow> jsval) \<Rightarrow> tool_env \<Rightarrow> tool_args \<Rightarrow> ext_call list \<times> tool_response" where
  "deep_research_body average env args =
     (case getModel env (modelSpec args) of
        Inl e \<Rightarrow> ([CallGetModel], ToolError (error_text e))
      | Inr m \<Rightarrow>
          (case deepResearch env args m of
             Inl e \<Rightarrow> ([CallGetModel, CallDeepResearch], ToolError (error_text e))
           | Inr res \<Rightarrow>
               (case writeFinalReport env (query args) res m of
                  Inl e \<Rightarrow>
                    ([CallGetModel, CallDeepResearch, CallWriteFinalReport],
                     ToolError (error_text e))
                | Inr report \<Rightarrow>
                    ([CallGetModel, CallDeepResearch, CallWriteFinalReport],
                     Report report
                       \<lparr>totalLearnings = length (learnings res),
                        totalSources = length (visitedUrls res),
                        averageReliability = average (weightedLearnings res)\<rparr>))))"

definition deep_research_handler :: "tool_env \<Rightarrow> tool_args \<Rightarrow> ext_call list \<times> tool_response" where
  "deep_research_handler = deep_research_body average_guarded"

definition deep_research_handler_second :: "tool_env \<Rightarrow> tool_args \<Rightarrow> ext_call list \<times> tool_response" where
  "deep_research_handler_second = deep_research_body average_unguarded"

text \<open>
  \<^verbatim>\<open>server.tool(name, description, schema, handler)\<close> registers a handler behind its schema.
  On a call the MCP server library parses the raw arguments against the schema and runs the
  handler on the parsed arguments only; arguments that fail are answered with an
  invalid-parameters error that lists the issues.
\<close>

datatype tool_outcome = InvalidParams "string list" | Completed tool_response

definition call_tool ::
  "((string \<Rightarrow> jsval option) \<Rightarrow> string list + 'a) \<Rightarrow> ('a \<Rightarrow> ext_call list \<times> tool_response)
     \<Rightarrow> (string \<Rightarrow> jsval option) \<Rightarrow> ext_call list \<times> tool_outcome" where
  "call_tool parse handler raw =
     (case parse raw of
        Inl issues \<Rightarrow> ([], InvalidParams issues)
      | Inr args \<Rightarrow> (case handler args of (calls, response) \<Rightarrow> (calls, Completed response)))"

definition research_sources_tool :: "tool_env \<Rightarrow> (string \<Rightarrow> jsval option) \<Rightarrow> ext_call list \<times> tool_outcome" where
  "research_sources_tool env = call_tool research_schema (research_sources_handler env)"

definition deep_research_tool :: "tool_env \<Rightarrow> (string \<Rightarrow> jsval option) \<Rightarrow> ext_call list \<times> tool_outcome" where
  "deep_research_tool env = call_tool research_schema (deep_research_handler env)"

definition research_sources_tool_second :: "tool_env \<Rightarrow> (string \<Rightarrow> jsval option) \<Rightarrow> ext_call list \<times> tool_outcome" where
  "research_sources_tool_second env = call_tool research_schema (research_sources_handler_second env)"

definition deep_research_tool_second :: "tool_env \<Rightarrow> (string \<Rightarrow> jsval option) \<Rightarrow> ext_call list \<times> tool_outcome" where
  "deep_research_tool_second env = call_tool research_schema (deep_research_handler_second env)"

text \<open>Example inputs: a session that finds nothing, and raw arguments with a given depth.\<close>

definition empty_result :: ResearchResult where
  "empty_result =
     \<lparr>learnings = [], learningReliabilities = [], visitedUrls = [], sourceMetadata = [],
      weightedLearnings = []\<rparr>"

definition barren_env :: tool_env where
  "barren_env =
     \<lparr>getModel = (\<lambda>spec. Inr ''auto''),
      deepResearch = (\<lambda>args m. Inr empty_result),
      writeFinalReport = (\<lambda>q res m. Inr ''report'')\<rparr>"

definition raw_args :: "rat \<Rightarrow> rat \<Rightarrow> string \<Rightarrow> jsval option" where
  "raw_args d b =
     [''query'' \<mapsto> JString ''topic'', ''depth'' \<mapsto> JNumber d, ''breadth'' \<mapsto> JNumber b]"

section \<open>The research service\<close>

text \<open>
  The search types of \<^verbatim>\<open>infrastructure/search/types.ts\<close>. \<^verbatim>\<open>string | null | undefined\<close> is an
  optional string. The query text and the limit of a \<^verbatim>\<open>SearchQuery\<close> are \<open>queryText\<close> and
  \<open>queryLimit\<close> here.
\<close>

record SourceItem =
  url :: "string option"
  title :: "string option"
  markdown :: "string option"
  publishDate :: "string option"

record SearchResult =
  data :: "SourceItem list"
  success :: bool

record SearchQuery =
  queryText :: string
  queryLimit :: "rat option"

record ResearchDirection =
  question :: string
  priority :: rat
  parentGoal :: "string option"

record ResearchContext = findings +
  researchDirections :: "ResearchDirection list"

text \<open>What \<^verbatim>\<open>processSearchResults\<close> hands back for one level.\<close>

record ProcessedResults =
  newLearnings :: "string list"
  newReliabilities :: "rat list"
  newUrls :: "string list"
  newSourceMetadata :: "SourceMetadata list"
  followUpDirections :: "ResearchDirection list"

text \<open>
  What \<^verbatim>\<open>DefaultResearchService\<close> uses and does not define:
  \<^item> \<open>modelQueries\<close>: the call of \<^verbatim>\<open>modelProvider.generateObject\<close> inside
    \<^verbatim>\<open>generateQueries\<close>. The source elides its argument; it is given the four fields of the
    query generation context. It answers with a \<^verbatim>\<open>Result\<close> or throws.
  \<^item> \<open>clientSearch\<close>: \<^verbatim>\<open>searchClient.search(text, {timeout, limit})\<close>, which answers with a
    \<^verbatim>\<open>Result\<close> or throws.
  \<^item> \<open>pLimit\<close>: the name \<^verbatim>\<open>pLimit\<close>, which \<^verbatim>\<open>executeSearches\<close> calls with the configured
    concurrency and which the file does not import. The call returns a limiter or throws:
    a reference error where the name is unbound (\<open>pLimit_unbound\<close>), a type error from the
    p-limit library unless the concurrency is a positive integer (\<open>pLimit_library\<close>).
  \<^item> \<open>raceOrder\<close>: when several searches of one level throw, \<^verbatim>\<open>Promise.all\<close> rejects with
    the error that came first in time; \<open>raceOrder\<close> picks it among the errors thrown.
\<close>

record research_deps =
  modelQueries ::
    "string \<Rightarrow> ResearchContext \<Rightarrow> rat \<Rightarrow> string option
       \<Rightarrow> js_error + (SearchQuery list, js_error) Result"
  clientSearch :: "string \<Rightarrow> rat \<Rightarrow> rat \<Rightarrow> js_error + (SearchResult, js_error) Result"
  pLimit :: "rat \<Rightarrow> js_error + unit"
  raceOrder :: nat

record service_config =
  cfgMaxConcurrency :: rat
  defaultTimeout :: rat

definition pLimit_unbound :: "rat \<Rightarrow> js_error + unit" where
  "pLimit_unbound n = Inl (JsError ''ReferenceError'' ''pLimit is not defined'' None)"

definition pLimit_library :: "rat \<Rightarrow> js_error + unit" where
  "pLimit_library n =
     (if n = of_int \<lfloor>n\<rfloor> \<and> 0 < n then Inr ()
      else Inl (JsError ''TypeError'' ''Expected concurrency to be a number from 1 and up'' None))"

text \<open>
  \<^verbatim>\<open>processSearchResults\<close>, as the source has it: whatever the search results and the
  parameters, it returns five empty lists.
\<close>

definition processSearchResults :: "SearchResult list \<Rightarrow> ResearchParams \<Rightarrow> ProcessedResults" where
  "processSearchResults searchResults params =
     \<lparr>newLearnings = [], newReliabilities = [], newUrls = [], newSourceMetadata = [],
      followUpDirections = []\<rparr>"

text \<open>
  \<^verbatim>\<open>generateQueries\<close> wraps the model call: an exception becomes
  \<^verbatim>\<open>Err(ResearchError('Query generation failed'))\<close>; otherwise it returns \<^verbatim>\<open>Ok(result.data)\<close>,
  where \<^verbatim>\<open>result\<close> is itself a \<^verbatim>\<open>Result\<close>, so a failed model result yields \<^verbatim>\<open>Ok(undefined)\<close>
  (\<open>Ok None\<close>).
\<close>

definition generateQueries ::
  "research_deps \<Rightarrow> string \<Rightarrow> ResearchContext \<Rightarrow> rat \<Rightarrow> string option
     \<Rightarrow> (SearchQuery list option, js_error) Result" where
  "generateQueries deps q ctx b prefs =
     (case modelQueries deps q ctx b prefs of
        Inl error \<Rightarrow> Err (ResearchError ''Query generation failed'' (Some error))
      | Inr (Ok queries) \<Rightarrow> Ok (Some queries)
      | Inr (Err e) \<Rightarrow> Ok None)"

text \<open>
  \<^verbatim>\<open>executeSearches\<close> first makes the limiter, then runs one search per query under
  \<^verbatim>\<open>Promise.all\<close>. Every search is started, whatever the others do. A failed result becomes
  \<^verbatim>\<open>{ data: [], success: false }\<close>. When no search throws, the results come back in the
  order of the queries; otherwise the level is rejected with one of the errors thrown.
  \<^verbatim>\<open>query.limit || 5\<close> replaces a missing or zero limit by 5.
\<close>

definition search_one :: "research_deps \<Rightarrow> service_config \<Rightarrow> SearchQuery \<Rightarrow> js_error + SearchResult" where
  "search_one deps cfg q =
     (case clientSearch deps (queryText q) (defaultTimeout cfg)
             (case queryLimit q of None \<Rightarrow> 5 | Some n \<Rightarrow> if n = 0 then 5 else n) of
        Inl error \<Rightarrow> Inl error
      | Inr (Err e) \<Rightarrow> Inr \<lparr>data = [], success = False\<rparr>
      | Inr (Ok res) \<Rightarrow> Inr res)"

definition thrown :: "(js_error + 'a) list \<Rightarrow> js_error list" where
  "thrown outcomes = concat (map (\<lambda>x. case x of Inl e \<Rightarrow> [e] | Inr r \<Rightarrow> []) outcomes)"

definition returned :: "(js_error + 'a) list \<Rightarrow> 'a list" where
  "returned outcomes = concat (map (\<lambda>x. case x of Inl e \<Rightarrow> [] | Inr r \<Rightarrow> [r]) outcomes)"

definition executeSearches :: "research_deps \<Rightarrow> service_config \<Rightarrow> SearchQuery list \<Rightarrow> js_error + SearchResult list" where
  "executeSearches deps cfg queries =
     (case pLimit deps (cfgMaxConcurrency cfg) of
        Inl error \<Rightarrow> Inl error
      | Inr limiter \<Rightarrow>
          let outcomes = map (search_one deps cfg) queries
          in if thrown outcomes = [] then Inr (returned outcomes)
             else Inl (thrown outcomes ! (raceOrder deps mod length (thrown outcomes))))"

text \<open>
  \<^verbatim>\<open>learnings.map((learning, i) => ({ content: learning, reliability: rs[i] || 0.5 }))\<close>:
  \<^verbatim>\<open>rs[i]\<close> is \<^verbatim>\<open>undefined\<close> beyond the end of \<^verbatim>\<open>rs\<close>, and \<^verbatim>\<open>||\<close> replaces \<^verbatim>\<open>undefined\<close> and
  \<open>0\<close> by 0.5. Reliabilities are finite numbers (scores that passed a number schema);
  \<^verbatim>\<open>NaN\<close>, which \<^verbatim>\<open>||\<close> would replace as well, is not among them.
\<close>

definition reliability_or_default :: "rat list \<Rightarrow> nat \<Rightarrow> rat" where
  "reliability_or_default rs i = (if i < length rs \<and> rs ! i \<noteq> 0 then rs ! i else 1 / 2)"

definition weighted :: "string list \<Rightarrow> rat list \<Rightarrow> LearningWithReliability list" where
  "weighted ls rs =
     map (\<lambda>(i, learning). \<lparr>content = learning, reliability = reliability_or_default rs i\<rparr>)
       (enumerate 0 ls)"

definition result_of :: "ResearchContext \<Rightarrow> SourceMetadata list \<Rightarrow> ResearchResult" where
  "result_of ctx metadata =
     \<lparr>learnings = learnings ctx,
      learningReliabilities = learningReliabilities ctx,
      visitedUrls = visitedUrls ctx,
      sourceMetadata = metadata,
      weightedLearnings = weighted (learnings ctx) (learningReliabilities ctx)\<rparr>"

text \<open>"Update context with new findings".\<close>

definition updatedContext :: "ResearchContext \<Rightarrow> ProcessedResults \<Rightarrow> ResearchContext" where
  "updatedContext ctx processed =
     \<lparr>learnings = learnings ctx @ newLearnings processed,
      learningReliabilities = learningReliabilities ctx @ newReliabilities processed,
      visitedUrls = visitedUrls ctx @ newUrls processed,
      researchDirections = followUpDirections processed\<rparr>"

definition undefined_queries :: js_error where
  "undefined_queries =
     JsError ''TypeError'' ''Cannot read properties of undefined (reading map)'' None"

text \<open>
  \<^verbatim>\<open>executeResearchDepth\<close>. A thrown exception is \<open>Inl\<close>. The remaining depth is a JavaScript
  number; each level lowers it by one, so the recursion ends.
\<close>

function executeResearchDepth ::
  "research_deps \<Rightarrow> service_config \<Rightarrow> ResearchParams \<Rightarrow> ResearchContext \<Rightarrow> rat
     \<Rightarrow> js_error + ResearchResult" where
  "executeResearchDepth deps cfg params ctx remainingDepth =
     (if remainingDepth \<le> 0 then Inr (result_of ctx [])
      else case generateQueries deps (query params) ctx (breadth params)
                  (sourcePreferences params) of
             Err error \<Rightarrow> Inl error
           | Ok None \<Rightarrow> Inl undefined_queries
           | Ok (Some queries) \<Rightarrow>
               (case executeSearches deps cfg queries of
                  Inl error \<Rightarrow> Inl error
                | Inr searchResults \<Rightarrow>
                    if remainingDepth > 1
                    then executeResearchDepth deps cfg params
                           (updatedContext ctx (processSearchResults searchResults params))
                           (remainingDepth - 1)
                    else Inr (result_of
                           (updatedContext ctx (processSearchResults searchResults params))
                           (newSourceMetadata (processSearchResults searchResults params)))))"
  by pat_completeness auto
termination
  by (relation "measure (\<lambda>(deps, cfg, params, ctx, d). nat \<lceil>d\<rceil>)") (auto simp add: ceiling_diff_one)

definition emptyContext :: ResearchContext where
  "emptyContext =
     \<lparr>learnings = [], learningReliabilities = [], visitedUrls = [], researchDirections = []\<rparr>"

definition conductResearch ::
  "research_deps \<Rightarrow> service_config \<Rightarrow> ResearchParams \<Rightarrow> (ResearchResult, js_error) Result" where
  "conductResearch deps cfg params =
     (case executeResearchDepth deps cfg params emptyContext (depth params) of
        Inr res \<Rightarrow> Ok res
      | Inl error \<Rightarrow> Err (ResearchError ''Research execution failed'' (Some error)))"

declare executeResearchDepth.simps [simp del]

text \<open>
  Example collaborators: a planner whose model call fails, and one that plans a single
  query over a search with no hits, with the p-limit library bound.
\<close>

definition planner_down :: js_error where
  "planner_down = JsError ''Error'' ''model unavailable'' None"

definition failing_planner_deps :: research_deps where
  "failing_planner_deps =
     \<lparr>modelQueries = (\<lambda>q ctx b prefs. Inl planner_down),
      clientSearch = (\<lambda>text timeout n. Inr (Ok \<lparr>data = [], success = True\<rparr>)),
      pLimit = pLimit_unbound,
      raceOrder = 0\<rparr>"

definition example_deps :: research_deps where
  "example_deps =
     failing_planner_deps
       \<lparr>modelQueries := (\<lambda>q ctx b prefs. Inr (Ok [\<lparr>queryText = q, queryLimit = None\<rparr>])),
        pLimit := pLimit_library\<rparr>"

definition example_config :: service_config where
  "example_config = \<lparr>cfgMaxConcurrency = 2, defaultTimeout = 15000\<rparr>"

definition example_params :: "rat \<Rightarrow> rat \<Rightarrow> ResearchParams" where
  "example_params d b =
     \<lparr>query = ''topic'', depth = d, breadth = b, tokenBudget = None, sourcePreferences = None\<rparr>"

definition example_context :: ResearchContext where
  "example_context =
     \<lparr>learnings = [''a'', ''b'', ''c''], learningReliabilities = [9 / 10, 0],
      visitedUrls = [''https://b.example''], researchDirections = []\<rparr>"

section \<open>The source evaluation service\<close>

text \<open>
  A computation that may throw: it returns a value or ends in an exception. \<open>try_catch\<close>
  is \<^verbatim>\<open>try { ... } catch (error) { ... }\<close>; \<open>and_then\<close> sequences two steps, the second of
  which runs only if the first returned.
\<close>

datatype 'a outcome = Returned 'a | Thrown js_error

definition called :: "js_error + 'a \<Rightarrow> 'a outcome" where
  "called answer = (case answer of Inl e \<Rightarrow> Thrown e | Inr x \<Rightarrow> Returned x)"

definition and_then :: "'a outcome \<Rightarrow> ('a \<Rightarrow> 'b outcome) \<Rightarrow> 'b outcome" where
  "and_then step rest = (case step of Thrown e \<Rightarrow> Thrown e | Returned x \<Rightarrow> rest x)"

definition try_catch :: "'a outcome \<Rightarrow> (js_error \<Rightarrow> 'a outcome) \<Rightarrow> 'a outcome" where
  "try_catch body handler = (case body of Thrown e \<Rightarrow> handler e | Returned x \<Rightarrow> Returned x)"

record ReliabilityAssessment =
  score :: rat
  reasoning :: string
  use :: bool
  preferenceReason :: "string option"
  domain :: string

record SourceEvaluationParams =
  item :: SourceItem
  evalQuery :: string
  evalPreferences :: "string option"

text \<open>
  The evaluation prompt is a template filled with the preference block, the query, the
  URL, the domain, the title and the content snippet; the request keeps these parts apart.
  The preference block carries the preferences when they are given and not blank.
\<close>

datatype pref_block = PreferencesToAvoid string | NoSpecialPreferences

record eval_request =
  reqSystem :: string
  reqPrefBlock :: pref_block
  reqQuery :: string
  reqUrl :: string
  reqDomain :: string
  reqTitle :: string
  reqContent :: string

text \<open>
  What the evaluator calls and does not define: the host name of \<^verbatim>\<open>new URL(url)\<close>,
  \<^verbatim>\<open>trimPrompt\<close>, \<^verbatim>\<open>systemPrompt\<close> and the model library's \<^verbatim>\<open>generateObject\<close>, which
  answers with an object of the requested schema (score, reasoning, use and an optional
  preference reason). Each may throw.
\<close>

record eval_env =
  hostname :: "string \<Rightarrow> js_error + string"
  trimPrompt :: "string \<Rightarrow> nat \<Rightarrow> js_error + string"
  systemPrompt :: "js_error + string"
  modelObject :: "eval_request \<Rightarrow> js_error + rat \<times> string \<times> bool \<times> string option"

definition or_empty :: "string option \<Rightarrow> string" where
  "or_empty s = (case s of None \<Rightarrow> [] | Some t \<Rightarrow> t)"

text \<open>
  \<^verbatim>\<open>String.prototype.trim\<close> removes white space and line terminators from both ends.
  Strings are UTF-8 byte sequences here, so each such character is the byte sequence that
  encodes it: tab, line feed, vertical tab, form feed, carriage return, space, U+00A0,
  U+1680, U+2000 to U+200A, U+2028, U+2029, U+202F, U+205F, U+3000 and U+FEFF.
\<close>

definition white_space :: "string list" where
  "white_space =
     [[CHR 0x09], [CHR 0x0A], [CHR 0x0B], [CHR 0x0C], [CHR 0x0D], [CHR 0x20],
      [CHR 0xC2, CHR 0xA0], [CHR 0xE1, CHR 0x9A, CHR 0x80],
      [CHR 0xE2, CHR 0x80, CHR 0x80], [CHR 0xE2, CHR 0x80, CHR 0x81],
      [CHR 0xE2, CHR 0x80, CHR 0x82], [CHR 0xE2, CHR 0x80, CHR 0x83],
      [CHR 0xE2, CHR 0x80, CHR 0x84], [CHR 0xE2, CHR 0x80, CHR 0x85],
      [CHR 0xE2, CHR 0x80, CHR 0x86], [CHR 0xE2, CHR 0x80, CHR 0x87],
      [CHR 0xE2, CHR 0x80, CHR 0x88], [CHR 0xE2, CHR 0x80, CHR 0x89],
      [CHR 0xE2, CHR 0x80, CHR 0x8A], [CHR 0xE2, CHR 0x80, CHR 0xA8],
      [CHR 0xE2, CHR 0x80, CHR 0xA9], [CHR 0xE2, CHR 0x80, CHR 0xAF],
      [CHR 0xE2, CHR 0x81, CHR 0x9F], [CHR 0xE3, CHR 0x80, CHR 0x80],
      [CHR 0xEF, CHR 0xBB, CHR 0xBF]]"

definition starts_with :: "string \<Rightarrow> string \<Rightarrow> bool" where
  "starts_with w s = (take (length w) s = w)"

text \<open>
  Removing leading characters of a set of byte sequences; the first argument bounds the
  number of characters removed and is the length of the string where it is used.
\<close>

primrec strip_leading :: "nat \<Rightarrow> string list \<Rightarrow> string \<Rightarrow> string" where
  "strip_leading 0 ws s = s"
| "strip_leading (Suc n) ws s =
     (case find (\<lambda>w. starts_with w s) ws of
        None \<Rightarrow> s
      | Some w \<Rightarrow> strip_leading n ws (drop (length w) s))"

definition trim :: "string \<Rightarrow> string" where
  "trim s =
     (let t = strip_leading (length s) white_space s
      in rev (strip_leading (length t) (map rev white_space) (rev t)))"

definition prefBlock :: "string option \<Rightarrow> pref_block" where
  "prefBlock prefs =
     (case prefs of
        None \<Rightarrow> NoSpecialPreferences
      | Some p \<Rightarrow> if p \<noteq> [] \<and> length (trim p) > 0 then PreferencesToAvoid p
                  else NoSpecialPreferences)"

text \<open>The inner \<^verbatim>\<open>try\<close>: an unparsable URL yields the empty domain.\<close>

definition resolve_domain :: "eval_env \<Rightarrow> string \<Rightarrow> string outcome" where
  "resolve_domain env u =
     try_catch (if u \<noteq> [] then called (hostname env u) else Returned [])
       (\<lambda>e. Returned [])"

definition evaluation_failed :: "js_error \<Rightarrow> js_error" where
  "evaluation_failed cause = AIModelError ''Failed to evaluate source reliability'' (Some cause)"

definition evaluateReliability ::
  "eval_env \<Rightarrow> SourceEvaluationParams \<Rightarrow> (ReliabilityAssessment, js_error) Result outcome" where
  "evaluateReliability env params =
     try_catch
       (let u = or_empty (url (item params));
            t = or_empty (title (item params))
        in and_then (resolve_domain env u) (\<lambda>dom.
           and_then (called (trimPrompt env (or_empty (markdown (item params))) 4000)) (\<lambda>contentSnippet.
           and_then (called (systemPrompt env)) (\<lambda>sys.
           and_then (called (modelObject env
                       \<lparr>reqSystem = sys, reqPrefBlock = prefBlock (evalPreferences params),
                        reqQuery = evalQuery params, reqUrl = u, reqDomain = dom,
                        reqTitle = t, reqContent = contentSnippet\<rparr>))
             (\<lambda>(sc, why, usable, prefReason).
                Returned (Ok \<lparr>score = sc, reasoning = why, use = usable,
                              preferenceReason = prefReason, domain = dom\<rparr>))))))
       (\<lambda>error. Returned (Err (evaluation_failed error)))"

text \<open>Example: a model that times out on every request.\<close>

definition timeout_error :: js_error where
  "timeout_error = JsError ''Error'' ''model timed out'' None"

definition failing_model_env :: eval_env where
  "failing_model_env =
     \<lparr>hostname = (\<lambda>u. Inl (JsError ''TypeError'' ''Invalid URL'' None)),
      trimPrompt = (\<lambda>s n. Inr (take n s)),
      systemPrompt = Inr ''You are an expert researcher.'',
      modelObject = (\<lambda>req. Inl timeout_error)\<rparr>"

definition example_source :: SourceEvaluationParams where
  "example_source =
     \<lparr>item = \<lparr>url = Some ''not a url'', title = None, markdown = Some ''text'',
               publishDate = None\<rparr>,
      evalQuery = ''topic'', evalPreferences = Some ''avoid forums''\<rparr>"

section \<open>Properties of the adaptive search client\<close>

lemma example_client_state:
  "metrics (search_completed (quick_search 9000) warmed_up) ''search''
     = Some \<lparr>name = ''search'', count = 5, totalDuration = 500, errors = 0,
             lastError = None, durations = [100, 100, 100, 100, 100]\<rparr>"
  "concurrency (search_completed (quick_search 9000) warmed_up) = 2"
  "lastAdjustment (search_completed (quick_search 9000) warmed_up) = 0"
  "concurrency warmed_up = 2"
  by (simp_all add: warmed_up_def run_searches_def quick_search_def search_completed_def
      newAdaptiveSearchClient_def recordSuccess_def getOrCreateMetric_def maxDurations_def
      adjustConcurrencyIfNeeded_def adjustmentInterval_def getMetrics_def Let_def)

lemma example_p95: "percentile_at [100, 100, 100, 100, 100] (19 / 20) = 100"
proof -
  have "\<lceil>19 / 4 :: rat\<rceil> = 5"
    by (simp add: ceiling_eq_iff)
  then show ?thesis
    by (simp add: percentile_at_def percentile_def percentile_index_def)
qed

lemma example_summary:
  "getMetrics (metrics (search_completed (quick_search 9000) warmed_up)) ''search'' = Some m
     \<Longrightarrow> sCount m = 5 \<and> errorRate m = 0 \<and> p95Duration m = 100"
  by (auto simp add: getMetrics_def Let_def example_client_state example_p95)

lemma adjustedConcurrency_bounds:
  assumes "minConcurrency \<le> c" and "c \<le> maxConcurrency"
  shows "minConcurrency \<le> adjustedConcurrency m c \<and> adjustedConcurrency m c \<le> maxConcurrency"
  using assms by (simp add: adjustedConcurrency_def minConcurrency_def maxConcurrency_def)

lemma adjustConcurrencyIfNeeded_bounds:
  assumes "minConcurrency \<le> concurrency s" and "concurrency s \<le> maxConcurrency"
  shows "minConcurrency \<le> concurrency (adjustConcurrencyIfNeeded now s)
         \<and> concurrency (adjustConcurrencyIfNeeded now s) \<le> maxConcurrency"
  using assms adjustedConcurrency_bounds [OF assms]
  by (simp add: adjustConcurrencyIfNeeded_def Let_def split: option.split)

lemma search_completed_bounds:
  assumes "minConcurrency \<le> concurrency s" and "concurrency s \<le> maxConcurrency"
  shows "minConcurrency \<le> concurrency (search_completed ev s)
         \<and> concurrency (search_completed ev s) \<le> maxConcurrency"
  unfolding search_completed_def Let_def
  by (rule adjustConcurrencyIfNeeded_bounds) (simp_all add: assms)

lemma foldl_search_completed_bounds:
  assumes "minConcurrency \<le> concurrency s" and "concurrency s \<le> maxConcurrency"
  shows "minConcurrency \<le> concurrency (foldl (\<lambda>s ev. search_completed ev s) s evs)
         \<and> concurrency (foldl (\<lambda>s ev. search_completed ev s) s evs) \<le> maxConcurrency"
  using assms
proof (induction evs arbitrary: s)
  case Nil
  then show ?case by simp
next
  case (Cons ev evs)
  have step: "minConcurrency \<le> concurrency (search_completed ev s)
              \<and> concurrency (search_completed ev s) \<le> maxConcurrency"
    using Cons.prems by (rule search_completed_bounds)
  show ?case
    using Cons.IH [of "search_completed ev s"] step by simp
qed

text \<open>
  C1. After any sequence of completed searches, and after any further adjustment step at
  any time, the concurrency ceiling of a client lies between \<open>minConcurrency = 1\<close> and
  \<open>maxConcurrency = 8\<close>.
\<close>

theorem concurrency_within_bounds:
  "minConcurrency \<le> concurrency (run_searches t0 evs)
   \<and> concurrency (run_searches t0 evs) \<le> maxConcurrency
   \<and> minConcurrency \<le> concurrency (adjustConcurrencyIfNeeded now (run_searches t0 evs))
   \<and> concurrency (adjustConcurrencyIfNeeded now (run_searches t0 evs)) \<le> maxConcurrency
   \<and> minConcurrency = 1 \<and> maxConcurrency = 8"
proof -
  have init: "minConcurrency \<le> concurrency (newAdaptiveSearchClient t0)"
             "concurrency (newAdaptiveSearchClient t0) \<le> maxConcurrency"
    by (simp_all add: newAdaptiveSearchClient_def minConcurrency_def maxConcurrency_def)
  have run: "minConcurrency \<le> concurrency (run_searches t0 evs)
             \<and> concurrency (run_searches t0 evs) \<le> maxConcurrency"
    unfolding run_searches_def using init by (rule foldl_search_completed_bounds)
  have adj: "minConcurrency \<le> concurrency (adjustConcurrencyIfNeeded now (run_searches t0 evs))
             \<and> concurrency (adjustConcurrencyIfNeeded now (run_searches t0 evs)) \<le> maxConcurrency"
    using run by (intro adjustConcurrencyIfNeeded_bounds) simp_all
  show ?thesis
    using run adj by (simp add: minConcurrency_def maxConcurrency_def)
qed

lemma adjust_concurrency_eq:
  "concurrency (adjustConcurrencyIfNeeded now s) = spec_ceiling_after now s"
  by (simp add: adjustConcurrencyIfNeeded_def spec_ceiling_after_def adjustedConcurrency_def
      spec_rule_def adjustmentInterval_def minConcurrency_def maxConcurrency_def Let_def
      split: option.split)

lemma adjust_step_small:
  assumes "minConcurrency \<le> concurrency s" and "concurrency s \<le> maxConcurrency"
  shows "\<bar>concurrency (adjustConcurrencyIfNeeded now s) - concurrency s\<bar> \<le> 1"
  using assms
  by (simp add: adjustConcurrencyIfNeeded_def adjustedConcurrency_def
      minConcurrency_def maxConcurrency_def Let_def split: option.split)

lemma run_searches_bounds:
  "minConcurrency \<le> concurrency (run_searches t0 evs)
   \<and> concurrency (run_searches t0 evs) \<le> maxConcurrency"
  unfolding run_searches_def
  by (rule foldl_search_completed_bounds)
     (simp_all add: newAdaptiveSearchClient_def minConcurrency_def maxConcurrency_def)

text \<open>
  C2. An adjustment at time \<open>now\<close> leaves the ceiling as the specified rule says: nothing
  changes unless the interval of 10000 ms has elapsed since the last adjustment and the
  summary counts at least 5 samples; then an error rate above 20% lowers the ceiling by one
  (not below 1); otherwise an error rate below 5% together with a 95th-percentile latency
  below 5000 ms raises it by one (not above 8); otherwise a 95th-percentile latency above
  10000 ms lowers it by one (not below 1); otherwise it stays. For a client reached by any
  sequence of completed searches the ceiling moves by at most one.
\<close>

theorem adjustment_follows_rule:
  "concurrency (adjustConcurrencyIfNeeded now s) = spec_ceiling_after now s
   \<and> \<bar>concurrency (adjustConcurrencyIfNeeded now (run_searches t0 evs))
        - concurrency (run_searches t0 evs)\<bar> \<le> 1"
proof -
  have "\<bar>concurrency (adjustConcurrencyIfNeeded now (run_searches t0 evs))
          - concurrency (run_searches t0 evs)\<bar> \<le> 1"
    using run_searches_bounds [of t0 evs] by (intro adjust_step_small) simp_all
  then show ?thesis
    by (simp add: adjust_concurrency_eq)
qed

theorem adjustment_follows_rule_witness:
  "concurrency (search_completed (quick_search 9000) warmed_up) = 2
   \<and> concurrency (adjustConcurrencyIfNeeded 9999 (search_completed (quick_search 9000) warmed_up)) = 2
   \<and> concurrency (adjustConcurrencyIfNeeded 10000 (search_completed (quick_search 9000) warmed_up)) = 3
   \<and> spec_rule 1 8 0 100 2 = 3 \<and> spec_rule 1 8 (1 / 4) 100 2 = 1
   \<and> spec_rule 1 8 (1 / 10) 100 2 = 2 \<and> spec_rule 1 8 (1 / 10) 10001 2 = 1
   \<and> spec_rule 1 8 0 100 8 = 8 \<and> spec_rule 1 8 1 100 1 = 1"
proof -
  let ?s = "search_completed (quick_search 9000) warmed_up"
  obtain m where m: "getMetrics (metrics ?s) ''search'' = Some m"
    by (simp add: getMetrics_def Let_def example_client_state)
  note facts = example_summary [OF m] example_client_state
  have early: "spec_ceiling_after 9999 ?s = 2"
    by (simp add: spec_ceiling_after_def m facts)
  have due: "spec_ceiling_after 10000 ?s = 3"
    by (simp add: spec_ceiling_after_def spec_rule_def m facts)
  show ?thesis
    using adjustment_follows_rule [of 9999 ?s 0 "[]"] adjustment_follows_rule [of 10000 ?s 0 "[]"]
    by (simp add: early due example_client_state spec_rule_def)
qed

lemma adjust_within_interval:
  "now - lastAdjustment s < adjustmentInterval \<Longrightarrow> adjustConcurrencyIfNeeded now s = s"
  by (simp add: adjustConcurrencyIfNeeded_def)

lemma adjust_changed_sets_time:
  "concurrency (adjustConcurrencyIfNeeded now s) \<noteq> concurrency s \<Longrightarrow>
     lastAdjustment (adjustConcurrencyIfNeeded now s) = now"
  by (auto simp add: adjustConcurrencyIfNeeded_def Let_def split: option.splits if_splits)

lemma search_completed_within_interval:
  "adjustedAt ev - lastAdjustment s < adjustmentInterval \<Longrightarrow>
     concurrency (search_completed ev s) = concurrency s
     \<and> lastAdjustment (search_completed ev s) = lastAdjustment s"
  by (simp add: search_completed_def Let_def adjust_within_interval)

text \<open>
  The ceiling changes at most once per adjustment interval: when an adjustment at time
  \<open>now\<close> has changed the ceiling, a search that completes less than 10000 ms after \<open>now\<close>
  leaves the ceiling and the time of the last adjustment as they are, whatever it records.
\<close>

theorem one_change_per_interval:
  assumes "concurrency (adjustConcurrencyIfNeeded now s) \<noteq> concurrency s"
    and "adjustedAt ev - now < 10000"
  shows "concurrency (search_completed ev (adjustConcurrencyIfNeeded now s))
           = concurrency (adjustConcurrencyIfNeeded now s)
       \<and> lastAdjustment (search_completed ev (adjustConcurrencyIfNeeded now s)) = now"
proof -
  have last: "lastAdjustment (adjustConcurrencyIfNeeded now s) = now"
    using assms(1) by (rule adjust_changed_sets_time)
  then have "adjustedAt ev - lastAdjustment (adjustConcurrencyIfNeeded now s) < adjustmentInterval"
    using assms(2) by (simp add: adjustmentInterval_def)
  from search_completed_within_interval [OF this] last show ?thesis
    by simp
qed

theorem one_change_per_interval_witness:
  "concurrency warmed_up = 2
   \<and> concurrency (adjustConcurrencyIfNeeded 10000 (search_completed (quick_search 9000) warmed_up)) = 3
   \<and> concurrency (search_completed (quick_search 19000)
        (adjustConcurrencyIfNeeded 10000 (search_completed (quick_search 9000) warmed_up))) = 3
   \<and> lastAdjustment (search_completed (quick_search 19000)
        (adjustConcurrencyIfNeeded 10000 (search_completed (quick_search 9000) warmed_up))) = 10000"
proof -
  let ?s = "search_completed (quick_search 9000) warmed_up"
  obtain m where m: "getMetrics (metrics ?s) ''search'' = Some m"
    by (simp add: getMetrics_def Let_def example_client_state)
  have up: "concurrency (adjustConcurrencyIfNeeded 10000 ?s) = 3"
    by (simp add: adjust_concurrency_eq spec_ceiling_after_def spec_rule_def m
        example_summary [OF m] example_client_state)
  then have "concurrency (adjustConcurrencyIfNeeded 10000 ?s) \<noteq> concurrency ?s"
    by (simp add: example_client_state)
  from one_change_per_interval [OF this, of "quick_search 19000"] up
  show ?thesis
    by (simp add: quick_search_def example_client_state)
qed

section \<open>Properties of the caches\<close>

lemma getFromCache_cases:
  assumes "map_of (cache p) key = Some entry"
  shows "(now > timestamp entry + ttl entry \<longrightarrow>
            getFromCache now key p = (JNull, p\<lparr>cache := AList.delete key (cache p)\<rparr>)
            \<and> map_of (cache (snd (getFromCache now key p))) key = None)
       \<and> (now \<le> timestamp entry + ttl entry \<longrightarrow> getFromCache now key p = (result entry, p))"
  using assms by (simp add: getFromCache_def expired_def delete_conv')

lemma lru_get_cases:
  assumes "map_of (lruCache c) key = Some e"
  shows "(now > lruTimestamp e + lruTtl c \<longrightarrow>
            fst (lru_get now key c) = None
            \<and> map_of (lruCache (snd (lru_get now key c))) key = None)
       \<and> (now \<le> lruTimestamp e + lruTtl c \<longrightarrow>
            fst (lru_get now key c) = Some (val e)
            \<and> map_of (lruCache (snd (lru_get now key c))) key
                = Some (e\<lparr>accessCount := accessCount e + 1\<rparr>))"
  using assms by (auto simp add: lru_get_def Let_def delete_conv' map_add_def)

text \<open>
  C8 as stated fails at the instant \<open>now = created + ttl\<close>: both caches test expiry with a
  strict \<^verbatim>\<open>>\<close>, so a read at exactly that time still returns the stored value and keeps the
  entry. Here the entry was created at 4 with a time-to-live of 6 and is read at 10.
\<close>

theorem read_at_deadline_still_hits:
  "(10::int) \<ge> 4 + 6
   \<and> getFromCache 10 ''k'' example_provider = (JString ''v'', example_provider)
   \<and> JString ''v'' \<noteq> JNull
   \<and> fst (lru_get 10 ''k'' example_content_cache) = Some ''v''"
  by (simp add: getFromCache_def expired_def lru_get_def example_provider_def
      example_content_cache_def newBatchedModelProvider_def newLRUContentCache_def)

text \<open>
  C8, amended. An entry is visible while \<open>now \<le> created + ttl\<close>. A read of the model
  provider's cache (\<open>getFromCache\<close>) or of the content cache (\<open>lru_get\<close>) at a time
  \<open>now > created + ttl\<close> returns absent (\<^verbatim>\<open>null\<close>) and removes the entry; a read at a time
  \<open>now \<le> created + ttl\<close> returns the stored value (the content cache also counts the access).
\<close>

theorem cache_entry_visible_until_deadline:
  assumes "map_of (cache p) key = Some entry" and "map_of (lruCache c) key' = Some e"
  shows "(now > timestamp entry + ttl entry \<longrightarrow>
            fst (getFromCache now key p) = JNull
            \<and> map_of (cache (snd (getFromCache now key p))) key = None)
       \<and> (now \<le> timestamp entry + ttl entry \<longrightarrow> getFromCache now key p = (result entry, p))
       \<and> (now > lruTimestamp e + lruTtl c \<longrightarrow>
            fst (lru_get now key' c) = None
            \<and> map_of (lruCache (snd (lru_get now key' c))) key' = None)
       \<and> (now \<le> lruTimestamp e + lruTtl c \<longrightarrow>
            fst (lru_get now key' c) = Some (val e)
            \<and> map_of (lruCache (snd (lru_get now key' c))) key'
                = Some (e\<lparr>accessCount := accessCount e + 1\<rparr>))"
  using getFromCache_cases [OF assms(1), of now] lru_get_cases [OF assms(2), of now]
  by (simp add: delete_conv')

theorem cache_entry_visible_until_deadline_witness:
  "fst (getFromCache 11 ''k'' example_provider) = JNull
   \<and> map_of (cache (snd (getFromCache 11 ''k'' example_provider))) ''k'' = None
   \<and> getFromCache 9 ''k'' example_provider = (JString ''v'', example_provider)
   \<and> fst (lru_get 11 ''k'' example_content_cache) = None
   \<and> map_of (lruCache (snd (lru_get 11 ''k'' example_content_cache))) ''k'' = None
   \<and> fst (lru_get 9 ''k'' example_content_cache) = Some ''v''"
proof -
  have p: "map_of (cache example_provider) ''k''
             = Some \<lparr>result = JString ''v'', timestamp = 4, ttl = 6\<rparr>"
    by (simp add: example_provider_def newBatchedModelProvider_def)
  have c: "map_of (lruCache example_content_cache) ''k''
             = Some \<lparr>val = ''v'', lruTimestamp = 4, accessCount = 1\<rparr>"
    by (simp add: example_content_cache_def newLRUContentCache_def)
  have ttl: "lruTtl example_content_cache = 6"
    by (simp add: example_content_cache_def newLRUContentCache_def)
  show ?thesis
    using cache_entry_visible_until_deadline [OF p c, of 11]
          cache_entry_visible_until_deadline [OF p c, of 9]
    by (simp add: ttl)
qed

lemma modelCalls_getFromCache: "modelCalls (snd (getFromCache now key p)) = modelCalls p"
  by (simp add: getFromCache_def split: option.split)

lemma map_of_setCache:
  assumes "0 \<le> ttlMs"
  shows "map_of (cache (setCache now key res ttlMs p)) key
           = Some \<lparr>result = res, timestamp = now, ttl = ttlMs\<rparr>"
  using assms
  by (simp add: setCache_def cleanupCache_def Let_def update_conv' map_of_filter_in expired_def)

text \<open>
  C4, the failing input. \<^verbatim>\<open>generateObject\<close> tests the cached value with \<^verbatim>\<open>if (cached)\<close>, so a
  stored result that is falsy is never a hit. A request whose generated object is the number
  0 is stored by the first call (at time 10, for 300000 ms); the same request at time 20
  finds the unexpired entry, discards it as falsy and asks the model again: two model calls,
  no cache hit.
\<close>

theorem falsy_result_generated_twice:
  "fst first_call = Ok (JNumber 0)
   \<and> map_of (cache (snd first_call)) (getCacheKey count_request)
       = Some \<lparr>result = JNumber 0, timestamp = 10, ttl = 300000\<rparr>
   \<and> \<not> expired 20 \<lparr>result = JNumber 0, timestamp = 10, ttl = 300000\<rparr>
   \<and> modelCalls (snd first_call) = [count_request]
   \<and> fst second_call = Ok (JNumber 0)
   \<and> modelCalls (snd second_call) = [count_request, count_request]
   \<and> cacheHits (stats (snd second_call)) = 0"
  by (simp add: second_call_def first_call_def generateObject_def getFromCache_def
      getCacheKey_def count_request_def newBatchedModelProvider_def setCache_def
      updateStats_def expired_def Let_def)

text \<open>
  For a stored result that is truthy (every object is) the cache hit short-circuits the
  call: while the entry is unexpired at the lookup, \<open>generateObject\<close> returns the stored
  result whatever the model would answer, logs no model call and leaves the cache as it is;
  only the call and hit counters move.
\<close>

theorem truthy_cache_hit_short_circuits:
  assumes "map_of (cache p) (getCacheKey params) = Some entry"
    and "tLookup clk \<le> timestamp entry + ttl entry"
    and "truthy (result entry)"
  shows "generateObject clk params reply p =
           (Ok (result entry),
            p\<lparr>stats := (stats p)\<lparr>totalCalls := totalCalls (stats p) + 1,
                                  cacheHits := cacheHits (stats p) + 1\<rparr>\<rparr>)"
  using assms by (simp add: generateObject_def getFromCache_def expired_def Let_def)

theorem truthy_cache_hit_short_circuits_witness:
  "generateObject \<lparr>tStart = 9, tLookup = 9, tDone = 9, tStore = 9\<rparr>
      \<lparr>model = ''m'', system = None, prompt = ''k'', schema = ''''\<rparr>
      (Inl (JsError ''Error'' ''offline'' None))
      (newBatchedModelProvider\<lparr>cache := [(''|k|'', \<lparr>result = JString ''v'', timestamp = 4, ttl = 6\<rparr>)]\<rparr>)
   = (Ok (JString ''v''),
      \<lparr>cache = [(''|k|'', \<lparr>result = JString ''v'', timestamp = 4, ttl = 6\<rparr>)],
       stats = \<lparr>totalCalls = 1, totalTokens = 0, cacheHits = 1, averageLatency = 0\<rparr>,
       modelCalls = []\<rparr>)"
  using truthy_cache_hit_short_circuits
    [of "newBatchedModelProvider\<lparr>cache := [(''|k|'', \<lparr>result = JString ''v'', timestamp = 4, ttl = 6\<rparr>)]\<rparr>"
        "\<lparr>model = ''m'', system = None, prompt = ''k'', schema = ''''\<rparr>"
        "\<lparr>result = JString ''v'', timestamp = 4, ttl = 6\<rparr>"
        "\<lparr>tStart = 9, tLookup = 9, tDone = 9, tStore = 9\<rparr>"
        "Inl (JsError ''Error'' ''offline'' None)"]
  by (simp add: getCacheKey_def newBatchedModelProvider_def)

text \<open>
  Two calls in a row: when a call has asked the model and was answered with a truthy
  object, the same request made again while the lookup time is within 300000 ms of the
  time the answer was stored returns that object and asks the model no second time,
  whatever the model would answer now.
\<close>

theorem repeated_request_served_from_cache:
  assumes first: "generateObject clk1 params (Inr (obj, usage)) p = (r1, p1)"
    and asked: "modelCalls p1 = modelCalls p @ [params]"
    and obj: "truthy obj"
    and within: "tLookup clk2 \<le> tStore clk1 + 300000"
  shows "r1 = Ok obj
       \<and> fst (generateObject clk2 params reply p1) = Ok obj
       \<and> modelCalls (snd (generateObject clk2 params reply p1)) = modelCalls p1"
proof -
  let ?p1 = "p\<lparr>stats := (stats p)\<lparr>totalCalls := totalCalls (stats p) + 1\<rparr>\<rparr>"
  let ?look = "getFromCache (tLookup clk1) (getCacheKey params) ?p1"
  have calls: "modelCalls (snd ?look) = modelCalls p"
    by (simp add: modelCalls_getFromCache)
  have miss: "\<not> truthy (fst ?look)"
  proof
    assume "truthy (fst ?look)"
    then have "modelCalls p1 = modelCalls p"
      using first calls by (auto simp add: generateObject_def Let_def split: prod.splits)
    with asked show False by simp
  qed
  have r1: "r1 = Ok obj"
    and p1: "p1 = setCache (tStore clk1) (getCacheKey params) obj 300000
                    (updateStats (tDone clk1 - tStart clk1) usage
                       ((snd ?look)\<lparr>modelCalls := modelCalls (snd ?look) @ [params]\<rparr>))"
    using first miss by (auto simp add: generateObject_def Let_def split: prod.splits)
  have entry: "map_of (cache p1) (getCacheKey params)
                 = Some \<lparr>result = obj, timestamp = tStore clk1, ttl = 300000\<rparr>"
    unfolding p1 by (rule map_of_setCache) simp
  have "generateObject clk2 params reply p1 =
           (Ok obj, p1\<lparr>stats := (stats p1)\<lparr>totalCalls := totalCalls (stats p1) + 1,
                                     cacheHits := cacheHits (stats p1) + 1\<rparr>\<rparr>)"
    using truthy_cache_hit_short_circuits [OF entry, of clk2 reply] within obj by simp
  then show ?thesis
    using r1 by simp
qed

theorem repeated_request_served_from_cache_witness:
  "fst (generateObject \<lparr>tStart = 20, tLookup = 20, tDone = 30, tStore = 30\<rparr> request_a
          (Inl timeout_error) after_request_a) = Ok answer_a
   \<and> modelCalls (snd (generateObject \<lparr>tStart = 20, tLookup = 20, tDone = 30, tStore = 30\<rparr>
                          request_a (Inl timeout_error) after_request_a)) = [request_a]"
proof -
  have first: "generateObject \<lparr>tStart = 0, tLookup = 0, tDone = 10, tStore = 10\<rparr> request_a
                 (Inr (answer_a, None)) newBatchedModelProvider
               = (fst (generateObject \<lparr>tStart = 0, tLookup = 0, tDone = 10, tStore = 10\<rparr>
                         request_a (Inr (answer_a, None)) newBatchedModelProvider),
                  after_request_a)"
    by (simp add: after_request_a_def)
  have asked: "modelCalls after_request_a = modelCalls newBatchedModelProvider @ [request_a]"
    by (simp add: after_request_a_def generateObject_def getFromCache_def
        newBatchedModelProvider_def setCache_def updateStats_def Let_def)
  have obj: "truthy answer_a"
    by (simp add: answer_a_def)
  from repeated_request_served_from_cache
         [OF first asked obj, of "\<lparr>tStart = 20, tLookup = 20, tDone = 30, tStore = 30\<rparr>"
            "Inl timeout_error"]
  show ?thesis
    using asked by (simp add: newBatchedModelProvider_def)
qed

text \<open>
  The cache key keeps the first 48 bytes of the joined text only. Under a system prompt
  of that length or more, requests that differ in their prompt share one key: after the
  answer to the first request is stored, the second, different request is answered with it
  and the model is not asked.
\<close>

theorem different_requests_share_cache_entry:
  "request_a \<noteq> request_b
   \<and> getCacheKey request_a = getCacheKey request_b
   \<and> modelCalls after_request_a = [request_a]
   \<and> fst (generateObject \<lparr>tStart = 20, tLookup = 20, tDone = 30, tStore = 30\<rparr> request_b
             (Inr (answer_b, None)) after_request_a) = Ok answer_a
   \<and> modelCalls (snd (generateObject \<lparr>tStart = 20, tLookup = 20, tDone = 30, tStore = 30\<rparr>
                          request_b (Inr (answer_b, None)) after_request_a)) = [request_a]"
  by (simp add: request_a_def request_b_def after_request_a_def generateObject_def
      getFromCache_def getCacheKey_def long_system_def newBatchedModelProvider_def setCache_def
      updateStats_def expired_def answer_a_def Let_def)

section \<open>Properties of the multi-level cache\<close>

lemma ml_get_l1_hit:
  assumes "tier_get key (l1 c) = Some v"
  shows "ml_get key c = (Some v, c\<lparr>stats1 := hit (stats1 c)\<rparr>)"
  using assms by (simp add: ml_get_def)

lemma ml_get_l2_hit:
  assumes "tier_get key (l1 c) = None" and "tier_get key (l2 c) = Some v"
  shows "ml_get key c =
           (Some v, c\<lparr>stats1 := miss (stats1 c), stats2 := hit (stats2 c),
                      l1 := tier_set key v 300 (l1 c)\<rparr>)"
  using assms by (simp add: ml_get_def Let_def)

text \<open>
  C7. A read of the tiered cache asks the near tier first: a near-tier hit is returned as it
  is and neither the shared tier nor any tier's contents are touched. On a near-tier miss
  the shared tier is asked; a shared-tier hit is returned and written to the near tier with
  a time-to-live of 300 seconds, the near tier's cap. A write stores the value in every
  configured tier: in the near tier with \<open>min (requested TTL) 300\<close>, in the shared tier with
  the requested TTL (3600 when none is given), in the third tier, when configured, with
  twice the requested TTL.
\<close>

theorem tiered_cache_read_write:
  "(tier_get key (l1 c) = Some v \<longrightarrow>
      fst (ml_get key c) = Some v
      \<and> l1 (snd (ml_get key c)) = l1 c \<and> l2 (snd (ml_get key c)) = l2 c
      \<and> l3 (snd (ml_get key c)) = l3 c \<and> stats2 (snd (ml_get key c)) = stats2 c)
   \<and> (tier_get key (l1 c) = None \<and> tier_get key (l2 c) = Some v \<longrightarrow>
      fst (ml_get key c) = Some v
      \<and> l1 (snd (ml_get key c)) key = Some (v, 300)
      \<and> l2 (snd (ml_get key c)) = l2 c)
   \<and> l1 (ml_set key w (Some requested) c) key = Some (w, min requested 300)
   \<and> l2 (ml_set key w (Some requested) c) key = Some (w, requested)
   \<and> (case l3 c of
         None \<Rightarrow> l3 (ml_set key w (Some requested) c) = None
       | Some t3 \<Rightarrow> map_option (\<lambda>t. t key) (l3 (ml_set key w (Some requested) c))
                      = Some (Some (w, requested * 2)))
   \<and> tier_get key (l1 (ml_set key w ttlArg c)) = Some w
   \<and> tier_get key (l2 (ml_set key w ttlArg c)) = Some w
   \<and> l2 (ml_set key w None c) key = Some (w, 3600)
   \<and> l1 (ml_set key w None c) key = Some (w, 300)"
proof -
  have a: "tier_get key (l1 c) = Some v \<longrightarrow>
      fst (ml_get key c) = Some v
      \<and> l1 (snd (ml_get key c)) = l1 c \<and> l2 (snd (ml_get key c)) = l2 c
      \<and> l3 (snd (ml_get key c)) = l3 c \<and> stats2 (snd (ml_get key c)) = stats2 c"
    by (simp add: ml_get_l1_hit)
  have b: "tier_get key (l1 c) = None \<and> tier_get key (l2 c) = Some v \<longrightarrow>
      fst (ml_get key c) = Some v
      \<and> l1 (snd (ml_get key c)) key = Some (v, 300)
      \<and> l2 (snd (ml_get key c)) = l2 c"
    by (simp add: ml_get_l2_hit tier_set_def)
  have w: "l1 (ml_set key w (Some requested) c) key = Some (w, min requested 300)"
          "l2 (ml_set key w (Some requested) c) key = Some (w, requested)"
          "tier_get key (l1 (ml_set key w ttlArg c)) = Some w"
          "tier_get key (l2 (ml_set key w ttlArg c)) = Some w"
          "l2 (ml_set key w None c) key = Some (w, 3600)"
          "l1 (ml_set key w None c) key = Some (w, 300)"
    by (simp_all add: ml_set_def tier_set_def tier_get_def Let_def)
  have t: "(case l3 c of
         None \<Rightarrow> l3 (ml_set key w (Some requested) c) = None
       | Some t3 \<Rightarrow> map_option (\<lambda>t. t key) (l3 (ml_set key w (Some requested) c))
                      = Some (Some (w, requested * 2)))"
    by (simp add: ml_set_def tier_set_def Let_def split: option.split)
  show ?thesis
    using a b w t by simp
qed

theorem tiered_cache_read_write_witness:
  "fst (ml_get ''k'' example_tiers) = Some ''v''
   \<and> l1 (snd (ml_get ''k'' example_tiers)) ''k'' = Some (''v'', 300)
   \<and> fst (ml_get ''k'' (snd (ml_get ''k'' example_tiers))) = Some ''v''
   \<and> stats2 (snd (ml_get ''k'' (snd (ml_get ''k'' example_tiers)))) = \<lparr>hits = 1, misses = 0\<rparr>
   \<and> l1 (ml_set ''a'' ''b'' (Some 60) example_tiers) ''a'' = Some (''b'', 60)
   \<and> l1 (ml_set ''a'' ''b'' (Some 900) example_tiers) ''a'' = Some (''b'', 300)
   \<and> l2 (ml_set ''a'' ''b'' (Some 900) example_tiers) ''a'' = Some (''b'', 900)
   \<and> map_option (\<lambda>t. t ''a'') (l3 (ml_set ''a'' ''b'' (Some 900) example_tiers))
       = Some (Some (''b'', 1800))"
proof -
  have miss1: "tier_get ''k'' (l1 example_tiers) = None"
    and hit2: "tier_get ''k'' (l2 example_tiers) = Some ''v''"
    by (simp_all add: example_tiers_def tier_get_def)
  note first = tiered_cache_read_write [of "''k''" example_tiers "''v''" "''b''" 0 None]
  have r1: "fst (ml_get ''k'' example_tiers) = Some ''v''"
    and r2: "l1 (snd (ml_get ''k'' example_tiers)) ''k'' = Some (''v'', 300)"
    and r3: "l2 (snd (ml_get ''k'' example_tiers)) = l2 example_tiers"
    using first miss1 hit2 by simp_all
  have hit1: "tier_get ''k'' (l1 (snd (ml_get ''k'' example_tiers))) = Some ''v''"
    using r2 by (simp add: tier_get_def)
  note second = tiered_cache_read_write
    [of "''k''" "snd (ml_get ''k'' example_tiers)" "''v''" "''b''" 0 None]
  have s1: "fst (ml_get ''k'' (snd (ml_get ''k'' example_tiers))) = Some ''v''"
    and s2: "stats2 (snd (ml_get ''k'' (snd (ml_get ''k'' example_tiers))))
              = stats2 (snd (ml_get ''k'' example_tiers))"
    using second hit1 by simp_all
  have s3: "stats2 (snd (ml_get ''k'' example_tiers)) = \<lparr>hits = 1, misses = 0\<rparr>"
    by (simp add: ml_get_def example_tiers_def tier_get_def Let_def hit_def miss_def)
  have l3: "l3 example_tiers = Some Map.empty"
    by (simp add: example_tiers_def)
  show ?thesis
    using r1 r2 s1 s2 s3
      tiered_cache_read_write [of "''a''" example_tiers "''b''" "''b''" 60 None]
      tiered_cache_read_write [of "''a''" example_tiers "''b''" "''b''" 900 None]
    by (simp add: l3)
qed

section \<open>Properties of the research tools\<close>

lemma research_schema_rejects:
  assumes "(raw ''depth'' = Some (JNumber d) \<and> (d < 1 \<or> 5 < d))
         \<or> (raw ''breadth'' = Some (JNumber b) \<and> (b < 1 \<or> 5 < b))"
  shows "\<exists>issues. issues \<noteq> [] \<and> research_schema raw = Inl issues"
proof -
  have "z_number_min_max 1 5 (raw ''depth'') = None \<or> z_number_min_max 1 5 (raw ''breadth'') = None"
    using assms by (auto simp add: z_number_min_max_def)
  then show ?thesis
    by (auto simp add: research_schema_def Let_def issue_def split: option.split)
qed

text \<open>
  The range of depth and breadth is declared in the input schemas of the tools. A call of
  either research tool (in either server file) whose depth or breadth is a number outside
  1..5, depth 0 and breadth 0 included, is answered with an invalid-parameters error that
  names at least one issue. The handler does not run: no collaborator (model lookup,
  research, report) is called, and the outcome is never a completed response.
\<close>

theorem out_of_range_depth_or_breadth_rejected:
  assumes "(raw ''depth'' = Some (JNumber d) \<and> (d < 1 \<or> 5 < d))
         \<or> (raw ''breadth'' = Some (JNumber b) \<and> (b < 1 \<or> 5 < b))"
  shows "\<exists>issues. issues \<noteq> []
           \<and> research_sources_tool env raw = ([], InvalidParams issues)
           \<and> deep_research_tool env raw = ([], InvalidParams issues)
           \<and> research_sources_tool_second env raw = ([], InvalidParams issues)
           \<and> deep_research_tool_second env raw = ([], InvalidParams issues)"
proof -
  obtain issues where "issues \<noteq> []" and "research_schema raw = Inl issues"
    using research_schema_rejects [OF assms] by blast
  then show ?thesis
    by (simp add: research_sources_tool_def deep_research_tool_def
        research_sources_tool_second_def deep_research_tool_second_def call_tool_def)
qed

theorem out_of_range_depth_or_breadth_rejected_witness:
  "research_sources_tool barren_env (raw_args 0 3) = ([], InvalidParams [''depth''])
   \<and> deep_research_tool barren_env (raw_args 3 0) = ([], InvalidParams [''breadth''])
   \<and> research_sources_tool_second barren_env (raw_args 6 3) = ([], InvalidParams [''depth''])
   \<and> fst (research_sources_tool barren_env (raw_args 1 5)) = [CallGetModel, CallDeepResearch]"
proof -
  have a: "\<exists>issues. issues \<noteq> []
           \<and> research_sources_tool barren_env (raw_args 0 3) = ([], InvalidParams issues)"
  proof -
    have "raw_args 0 3 ''depth'' = Some (JNumber 0)" "raw_args 0 3 ''breadth'' = Some (JNumber 3)"
      by (simp_all add: raw_args_def)
    then have "(raw_args 0 3 ''depth'' = Some (JNumber 0) \<and> (0 < (1::rat) \<or> 5 < (0::rat)))
         \<or> (raw_args 0 3 ''breadth'' = Some (JNumber 3) \<and> (3 < (1::rat) \<or> 5 < (3::rat)))"
      by simp
    from out_of_range_depth_or_breadth_rejected [OF this, of barren_env]
    show ?thesis by auto
  qed
  have b: "\<exists>issues. issues \<noteq> []
           \<and> deep_research_tool barren_env (raw_args 3 0) = ([], InvalidParams issues)"
  proof -
    have "raw_args 3 0 ''depth'' = Some (JNumber 3)" "raw_args 3 0 ''breadth'' = Some (JNumber 0)"
      by (simp_all add: raw_args_def)
    then have "(raw_args 3 0 ''depth'' = Some (JNumber 3) \<and> (3 < (1::rat) \<or> 5 < (3::rat)))
         \<or> (raw_args 3 0 ''breadth'' = Some (JNumber 0) \<and> (0 < (1::rat) \<or> 5 < (0::rat)))"
      by simp
    from out_of_range_depth_or_breadth_rejected [OF this, of barren_env]
    show ?thesis by auto
  qed
  have c: "\<exists>issues. issues \<noteq> []
           \<and> research_sources_tool_second barren_env (raw_args 6 3) = ([], InvalidParams issues)"
  proof -
    have "raw_args 6 3 ''depth'' = Some (JNumber 6)" "raw_args 6 3 ''breadth'' = Some (JNumber 3)"
      by (simp_all add: raw_args_def)
    then have "(raw_args 6 3 ''depth'' = Some (JNumber 6) \<and> (6 < (1::rat) \<or> 5 < (6::rat)))
         \<or> (raw_args 6 3 ''breadth'' = Some (JNumber 3) \<and> (3 < (1::rat) \<or> 5 < (3::rat)))"
      by simp
    from out_of_range_depth_or_breadth_rejected [OF this, of barren_env]
    show ?thesis by auto
  qed
  have parse0: "research_schema (raw_args 0 3) = Inl [''depth'']"
    and parse1: "research_schema (raw_args 3 0) = Inl [''breadth'']"
    and parse2: "research_schema (raw_args 6 3) = Inl [''depth'']"
    by (simp_all add: research_schema_def raw_args_def z_string_min_def z_number_min_max_def
        z_string_optional_def z_number_optional_def issue_def Let_def)
  have ok: "fst (research_sources_tool barren_env (raw_args 1 5)) = [CallGetModel, CallDeepResearch]"
    by (simp add: research_sources_tool_def call_tool_def research_schema_def raw_args_def
        z_string_min_def z_number_min_max_def z_string_optional_def z_number_optional_def
        issue_def Let_def research_sources_handler_def research_sources_body_def barren_env_def)
  show ?thesis
    using a b c ok parse0 parse1 parse2
    by (simp add: research_sources_tool_def deep_research_tool_def
        research_sources_tool_second_def call_tool_def)
qed

text \<open>
  C9, the failing input. A session without weighted learnings, handled by the second server
  file: its \<^verbatim>\<open>research-sources\<close> and \<^verbatim>\<open>deep-research\<close> handlers divide the empty sum by the
  length 0 and report \<^verbatim>\<open>NaN\<close> as the average reliability.
\<close>

theorem second_server_reports_nan:
  "snd (research_sources_tool_second barren_env (raw_args 1 2))
     = Completed (SourcesData \<lparr>total_sources = 0, average_reliability = JNaN,
                                high_reliability_sources = 0, visited_urls = []\<rparr>)
   \<and> snd (deep_research_tool_second barren_env (raw_args 1 2))
     = Completed (Report ''report'' \<lparr>totalLearnings = 0, totalSources = 0,
                                      averageReliability = JNaN\<rparr>)"
  by (simp add: research_sources_tool_second_def deep_research_tool_second_def call_tool_def
      research_schema_def raw_args_def z_string_min_def z_number_min_max_def
      z_string_optional_def z_number_optional_def issue_def Let_def
      research_sources_handler_second_def deep_research_handler_second_def
      research_sources_body_def deep_research_body_def barren_env_def empty_result_def
      average_unguarded_def sum_reliability_def js_divide_def)

text \<open>
  The first server file guards the average: whenever the research returns no weighted
  learnings, its \<^verbatim>\<open>research-sources\<close> handler reports an average reliability of 0, and so does
  its \<^verbatim>\<open>deep-research\<close> handler once the report is written.
\<close>

theorem first_server_reports_zero:
  assumes "getModel env (modelSpec args) = Inr m"
    and "deepResearch env args m = Inr res"
    and "weightedLearnings res = []"
  shows "(\<exists>cov. snd (research_sources_handler env args) = SourcesData cov
                \<and> average_reliability cov = JNumber 0)
       \<and> (case writeFinalReport env (query args) res m of
            Inl e \<Rightarrow> snd (deep_research_handler env args) = ToolError (error_text e)
          | Inr report \<Rightarrow>
              \<exists>st. snd (deep_research_handler env args) = Report report st
                   \<and> averageReliability st = JNumber 0)"
  using assms
  by (simp add: research_sources_handler_def deep_research_handler_def
      research_sources_body_def deep_research_body_def average_guarded_def split: sum.split)

theorem first_server_reports_zero_witness:
  "snd (research_sources_tool barren_env (raw_args 1 2))
     = Completed (SourcesData \<lparr>total_sources = 0, average_reliability = JNumber 0,
                                high_reliability_sources = 0, visited_urls = []\<rparr>)
   \<and> (\<exists>st. snd (deep_research_handler barren_env
                 \<lparr>query = ''topic'', depth = 1, breadth = 2, tokenBudget = None,
                  sourcePreferences = None, modelSpec = None\<rparr>) = Report ''report'' st
           \<and> averageReliability st = JNumber 0)"
proof -
  have "(\<exists>st. snd (deep_research_handler barren_env
                 \<lparr>query = ''topic'', depth = 1, breadth = 2, tokenBudget = None,
                  sourcePreferences = None, modelSpec = None\<rparr>) = Report ''report'' st
           \<and> averageReliability st = JNumber 0)"
    using first_server_reports_zero
      [of barren_env "\<lparr>query = ''topic'', depth = 1, breadth = 2, tokenBudget = None,
                  sourcePreferences = None, modelSpec = None\<rparr>" "''auto''" empty_result]
    by (simp add: barren_env_def empty_result_def)
  moreover have "snd (research_sources_tool barren_env (raw_args 1 2))
     = Completed (SourcesData \<lparr>total_sources = 0, average_reliability = JNumber 0,
                                high_reliability_sources = 0, visited_urls = []\<rparr>)"
    by (simp add: research_sources_tool_def call_tool_def
      research_schema_def raw_args_def z_string_min_def z_number_min_max_def
      z_string_optional_def z_number_optional_def issue_def Let_def
      research_sources_handler_def research_sources_body_def barren_env_def empty_result_def
      average_guarded_def)
  ultimately show ?thesis by simp
qed

section \<open>Properties of the research service\<close>

lemma executeResearchDepth_shape:
  "executeResearchDepth deps cfg params ctx d = Inr r \<Longrightarrow> \<exists>ctx' metadata. r = result_of ctx' metadata"
proof (induction deps cfg params ctx d arbitrary: r rule: executeResearchDepth.induct)
  case (1 deps cfg params ctx d)
  show ?case
  proof (cases "d \<le> 0")
    case True
    with "1.prems" show ?thesis
      by (subst (asm) executeResearchDepth.simps) auto
  next
    case False
    from "1.prems" False obtain queries searchResults where
      q: "generateQueries deps (query params) ctx (breadth params) (sourcePreferences params)
            = Ok (Some queries)"
      and s: "executeSearches deps cfg queries = Inr searchResults"
      by (subst (asm) executeResearchDepth.simps)
         (auto split: Result.splits option.splits sum.splits)
    show ?thesis
    proof (cases "1 < d")
      case True
      have "executeResearchDepth deps cfg params
              (updatedContext ctx (processSearchResults searchResults params)) (d - 1) = Inr r"
        using "1.prems" False q s True by (subst (asm) executeResearchDepth.simps) simp
      then show ?thesis
        using "1.IH" [OF False q refl s True] by blast
    next
      case notdeep: False
      have "r = result_of (updatedContext ctx (processSearchResults searchResults params))
                 (newSourceMetadata (processSearchResults searchResults params))"
        using "1.prems" False q s notdeep by (subst (asm) executeResearchDepth.simps) simp
      then show ?thesis by blast
    qed
  qed
qed

lemma weighted_length: "length (weighted ls rs) = length ls"
  by (simp add: weighted_def)

lemma weighted_nth:
  "i < length ls \<Longrightarrow>
     weighted ls rs ! i = \<lparr>content = ls ! i, reliability = reliability_or_default rs i\<rparr>"
  by (simp add: weighted_def nth_enumerate_eq)

lemma executeResearchDepth_no_levels:
  "d \<le> 0 \<Longrightarrow> executeResearchDepth deps cfg params ctx d = Inr (result_of ctx [])"
  by (subst executeResearchDepth.simps) simp

text \<open>
  C10. Every result returned by \<open>executeResearchDepth\<close> carries one weighted learning per
  learning, in the same order and with the learning as its content. The reliability
  attached at index \<open>i\<close> is the stored reliability at \<open>i\<close> when that exists and is not zero,
  and 0.5 when it is missing or exactly 0.
\<close>

theorem weighted_learnings_follow_learnings:
  assumes "executeResearchDepth deps cfg params ctx d = Inr r"
  shows "length (weightedLearnings r) = length (learnings r)
       \<and> (\<forall>i < length (learnings r).
            content (weightedLearnings r ! i) = learnings r ! i
            \<and> reliability (weightedLearnings r ! i)
                = (if i < length (learningReliabilities r) \<and> learningReliabilities r ! i \<noteq> 0
                   then learningReliabilities r ! i else 1 / 2))"
proof -
  obtain ctx' metadata where r: "r = result_of ctx' metadata"
    using executeResearchDepth_shape [OF assms] by blast
  show ?thesis
    unfolding r result_of_def
    by (simp add: weighted_length weighted_nth reliability_or_default_def)
qed

theorem weighted_learnings_follow_learnings_witness:
  "executeResearchDepth failing_planner_deps example_config (example_params 0 2) example_context 0
     = Inr (result_of example_context [])
   \<and> weightedLearnings (result_of example_context [])
       = [\<lparr>content = ''a'', reliability = 9 / 10\<rparr>, \<lparr>content = ''b'', reliability = 1 / 2\<rparr>,
          \<lparr>content = ''c'', reliability = 1 / 2\<rparr>]"
proof -
  have run: "executeResearchDepth failing_planner_deps example_config (example_params 0 2)
               example_context 0 = Inr (result_of example_context [])"
    by (rule executeResearchDepth_no_levels) simp
  have fields: "learnings (result_of example_context []) = [''a'', ''b'', ''c'']"
    "learningReliabilities (result_of example_context []) = [9 / 10, 0]"
    by (simp_all add: result_of_def example_context_def)
  from weighted_learnings_follow_learnings [OF run]
  have len: "length (weightedLearnings (result_of example_context [])) = 3"
    and each: "\<forall>i < 3.
            content (weightedLearnings (result_of example_context []) ! i) = [''a'', ''b'', ''c''] ! i
            \<and> reliability (weightedLearnings (result_of example_context []) ! i)
                = (if i < 2 \<and> [9 / 10, 0 :: rat] ! i \<noteq> 0 then [9 / 10, 0] ! i else 1 / 2)"
    by (simp_all add: fields)
  have "weightedLearnings (result_of example_context [])
       = [\<lparr>content = ''a'', reliability = 9 / 10\<rparr>, \<lparr>content = ''b'', reliability = 1 / 2\<rparr>,
          \<lparr>content = ''c'', reliability = 1 / 2\<rparr>]"
  proof (rule nth_equalityI)
    show "length (weightedLearnings (result_of example_context []))
          = length [\<lparr>content = ''a'', reliability = 9 / 10 :: rat\<rparr>,
                    \<lparr>content = ''b'', reliability = 1 / 2\<rparr>,
                    \<lparr>content = ''c'', reliability = 1 / 2\<rparr>]"
      using len by simp
  next
    fix i assume "i < length (weightedLearnings (result_of example_context []))"
    then have "i = 0 \<or> i = 1 \<or> i = 2" using len by auto
    then show "weightedLearnings (result_of example_context []) ! i
          = [\<lparr>content = ''a'', reliability = 9 / 10 :: rat\<rparr>,
             \<lparr>content = ''b'', reliability = 1 / 2\<rparr>,
             \<lparr>content = ''c'', reliability = 1 / 2\<rparr>] ! i"
      using each by (auto intro!: LearningWithReliability.equality)
  qed
  with run show ?thesis by simp
qed





text \<open>
  A session of two levels, with the p-limit library bound: one query is planned and
  searched at each level, and the result is still empty.
\<close>

lemma session_of_two_levels:
  "conductResearch example_deps example_config (example_params 2 2)
     = Ok \<lparr>learnings = [], learningReliabilities = [], visitedUrls = [],
           sourceMetadata = [], weightedLearnings = []\<rparr>"
proof -
  have lim: "pLimit_library 2 = Inr ()"
    by (simp add: pLimit_library_def)
  show ?thesis
    by (simp add: conductResearch_def example_params_def example_deps_def
        failing_planner_deps_def example_config_def lim
        executeResearchDepth.simps [of _ _ _ _ 2] executeResearchDepth.simps [of _ _ _ _ 1]
        generateQueries_def executeSearches_def search_one_def thrown_def returned_def
        updatedContext_def processSearchResults_def emptyContext_def result_of_def
        weighted_def Let_def)
qed




section \<open>Properties of the source evaluation service\<close>

lemma try_catch_returns:
  "(\<And>e. \<exists>y. handler e = Returned y) \<Longrightarrow> \<exists>y. try_catch body handler = Returned y"
  by (cases body) (simp_all add: try_catch_def)

lemma evaluateReliability_cases:
  "(\<exists>a. evaluateReliability env params = Returned (Ok a))
   \<or> (\<exists>cause. evaluateReliability env params = Returned (Err (evaluation_failed cause)))"
  unfolding evaluateReliability_def try_catch_def and_then_def called_def Let_def
  by (auto split: outcome.split sum.split prod.split)

text \<open>
  C5. For every source item, query and preferences, and whatever the collaborators do,
  \<open>evaluateReliability\<close> returns: either \<^verbatim>\<open>Ok\<close> with an assessment, or \<^verbatim>\<open>Err\<close> with an
  \<^verbatim>\<open>AIModelError\<close> whose cause is the exception caught. It never ends in an exception. In
  particular, when the prompt can be built and the model call fails with an error, that
  error is returned as the cause of the \<^verbatim>\<open>AIModelError\<close>.
\<close>

theorem evaluateReliability_never_throws:
  "(\<forall>e. evaluateReliability env params \<noteq> Thrown e)
   \<and> ((\<exists>a. evaluateReliability env params = Returned (Ok a))
      \<or> (\<exists>cause. evaluateReliability env params
            = Returned (Err (AIModelError ''Failed to evaluate source reliability'' (Some cause)))))
   \<and> (trimPrompt env (or_empty (markdown (item params))) 4000 = Inr snippet
      \<and> systemPrompt env = Inr sys \<and> (\<forall>req. modelObject env req = Inl failure) \<longrightarrow>
        evaluateReliability env params
          = Returned (Err (AIModelError ''Failed to evaluate source reliability'' (Some failure))))"
proof -
  have cases: "(\<exists>a. evaluateReliability env params = Returned (Ok a))
      \<or> (\<exists>cause. evaluateReliability env params
            = Returned (Err (AIModelError ''Failed to evaluate source reliability'' (Some cause))))"
    using evaluateReliability_cases [of env params] by (simp add: evaluation_failed_def)
  then have never: "\<forall>e. evaluateReliability env params \<noteq> Thrown e"
    by auto
  have dom: "\<exists>d. resolve_domain env u = Returned d" for u
    unfolding resolve_domain_def by (rule try_catch_returns) simp
  have model: "evaluateReliability env params
          = Returned (Err (AIModelError ''Failed to evaluate source reliability'' (Some failure)))"
    if "trimPrompt env (or_empty (markdown (item params))) 4000 = Inr snippet"
      and "systemPrompt env = Inr sys" and "\<forall>req. modelObject env req = Inl failure"
  proof -
    obtain d where "resolve_domain env (or_empty (url (item params))) = Returned d"
      using dom by blast
    then show ?thesis
      using that
      by (simp add: evaluateReliability_def Let_def and_then_def called_def try_catch_def
          evaluation_failed_def)
  qed
  show ?thesis
    using cases never model by blast
qed

theorem evaluateReliability_never_throws_witness:
  "evaluateReliability failing_model_env example_source
     = Returned (Err (AIModelError ''Failed to evaluate source reliability'' (Some timeout_error)))"
  using evaluateReliability_never_throws
    [of failing_model_env example_source "''text''" "''You are an expert researcher.''"
        timeout_error]
  by (simp add: failing_model_env_def example_source_def or_empty_def)

end
